theory Spec2Isabelle
  imports Complex_Main "HOL-Library.Word"
begin

unbundle bit_operations_syntax

section \<open>Python values used by the program\<close>

text \<open>
  A Python \<open>str\<close> is modelled as a \<^typ>\<open>string\<close>; one \<^typ>\<open>char\<close> of the model
  stands for one code point below 256 of the source string, so that \<^const>\<open>length\<close> is
  Python's \<open>len\<close>. \<open>Optional[str]\<close> is \<^typ>\<open>string option\<close>.
\<close>

subsection \<open>\<open>hashlib.sha256(password.encode()).hexdigest()\<close>\<close>

text \<open>
  \<open>hashlib\<close> is the standard library's SHA-256 (FIPS 180-4). It is written out here so
  that \<open>hash_password\<close> computes; \<open>str.encode()\<close> is UTF-8, which maps a code point
  below 128 to one byte and a code point from 128 to 255 to two bytes.
\<close>

type_synonym byte = "8 word"
type_synonym word32 = "32 word"

definition utf8_encode :: "string \<Rightarrow> byte list" where
  "utf8_encode s = concat (map (\<lambda>c. let n = (of_char c :: nat) in
       if n < 128 then [word_of_nat n]
       else [word_of_nat (192 + n div 64), word_of_nat (128 + n mod 64)]) s)"

definition sha256_K :: "word32 list" where
  "sha256_K = [
    0x428A2F98, 0x71374491, 0xB5C0FBCF, 0xE9B5DBA5, 0x3956C25B, 0x59F111F1, 0x923F82A4, 0xAB1C5ED5,
    0xD807AA98, 0x12835B01, 0x243185BE, 0x550C7DC3, 0x72BE5D74, 0x80DEB1FE, 0x9BDC06A7, 0xC19BF174,
    0xE49B69C1, 0xEFBE4786, 0x0FC19DC6, 0x240CA1CC, 0x2DE92C6F, 0x4A7484AA, 0x5CB0A9DC, 0x76F988DA,
    0x983E5152, 0xA831C66D, 0xB00327C8, 0xBF597FC7, 0xC6E00BF3, 0xD5A79147, 0x06CA6351, 0x14292967,
    0x27B70A85, 0x2E1B2138, 0x4D2C6DFC, 0x53380D13, 0x650A7354, 0x766A0ABB, 0x81C2C92E, 0x92722C85,
    0xA2BFE8A1, 0xA81A664B, 0xC24B8B70, 0xC76C51A3, 0xD192E819, 0xD6990624, 0xF40E3585, 0x106AA070,
    0x19A4C116, 0x1E376C08, 0x2748774C, 0x34B0BCB5, 0x391C0CB3, 0x4ED8AA4A, 0x5B9CCA4F, 0x682E6FF3,
    0x748F82EE, 0x78A5636F, 0x84C87814, 0x8CC70208, 0x90BEFFFA, 0xA4506CEB, 0xBEF9A3F7, 0xC67178F2]"

definition sha256_H0 :: "word32 list" where
  "sha256_H0 = [0x6A09E667, 0xBB67AE85, 0x3C6EF372, 0xA54FF53A,
                0x510E527F, 0x9B05688C, 0x1F83D9AB, 0x5BE0CD19]"

definition pad :: "byte list \<Rightarrow> byte list" where
  "pad m = (let l = length m; bits = (word_of_nat (8 * l) :: 64 word) in
     m @ [0x80] @ replicate ((119 - l mod 64) mod 64) 0 @
     map (\<lambda>i. ucast (drop_bit (8 * (7 - i)) bits)) [0..<8])"

function blocks :: "byte list \<Rightarrow> byte list list" where
  "blocks bs = (if bs = [] then [] else take 64 bs # blocks (drop 64 bs))"
  by pat_completeness auto
termination
  by (relation "measure length") auto

fun be_words :: "byte list \<Rightarrow> word32 list" where
  "be_words (a # b # c # d # rest) =
     (push_bit 24 (ucast a) OR push_bit 16 (ucast b) OR push_bit 8 (ucast c) OR ucast d)
       # be_words rest"
| "be_words _ = []"

definition ssig0 :: "word32 \<Rightarrow> word32" where
  "ssig0 x = word_rotr 7 x XOR word_rotr 18 x XOR drop_bit 3 x"

definition ssig1 :: "word32 \<Rightarrow> word32" where
  "ssig1 x = word_rotr 17 x XOR word_rotr 19 x XOR drop_bit 10 x"

definition bsig0 :: "word32 \<Rightarrow> word32" where
  "bsig0 x = word_rotr 2 x XOR word_rotr 13 x XOR word_rotr 22 x"

definition bsig1 :: "word32 \<Rightarrow> word32" where
  "bsig1 x = word_rotr 6 x XOR word_rotr 11 x XOR word_rotr 25 x"

definition ch :: "word32 \<Rightarrow> word32 \<Rightarrow> word32 \<Rightarrow> word32" where
  "ch x y z = (x AND y) XOR (NOT x AND z)"

definition maj :: "word32 \<Rightarrow> word32 \<Rightarrow> word32 \<Rightarrow> word32" where
  "maj x y z = (x AND y) XOR (x AND z) XOR (y AND z)"

fun schedule :: "nat \<Rightarrow> word32 list \<Rightarrow> word32 list" where
  "schedule 0 w = w"
| "schedule (Suc n) w =
     schedule n (w @ [ssig1 (w ! (length w - 2)) + w ! (length w - 7) +
                      ssig0 (w ! (length w - 15)) + w ! (length w - 16)])"

fun round :: "word32 \<times> word32 \<Rightarrow> word32 list \<Rightarrow> word32 list" where
  "round (k, w) [a, b, c, d, e, f, g, h] =
     (let t1 = h + bsig1 e + ch e f g + k + w;
          t2 = bsig0 a + maj a b c
      in [t1 + t2, a, b, c, d + t1, e, f, g])"
| "round _ s = s"

definition compress :: "byte list \<Rightarrow> word32 list \<Rightarrow> word32 list" where
  "compress block hs =
     map2 (+) hs (fold round (zip sha256_K (schedule 48 (be_words block))) hs)"

definition hex_digit :: "nat \<Rightarrow> char" where
  "hex_digit n = ''0123456789abcdef'' ! (n mod 16)"

definition hex32 :: "word32 \<Rightarrow> string" where
  "hex32 w = map (\<lambda>i. hex_digit (unat (drop_bit (28 - 4 * i) w AND 15))) [0..<8]"

definition sha256_hexdigest :: "byte list \<Rightarrow> string" where
  "sha256_hexdigest m = concat (map hex32 (fold compress (blocks (pad m)) sha256_H0))"

subsection \<open>Floats and the format specification \<open>.4f\<close>\<close>

text \<open>
  A Python \<open>float\<close> is an IEEE double: a finite value (carried here by its exact rational
  value), the negative zero, an infinity or NaN. Formatting with \<open>.4f\<close> rounds the exact
  value to four decimals, ties to even, and writes \<open>inf\<close>, \<open>-inf\<close> and \<open>nan\<close> for the
  special values. The values a caller puts into \<open>model_data\<close> are floats or \<open>None\<close>.
\<close>

datatype pyfloat = Finite rat | NegZero | PosInf | NegInf | NaN

datatype pyval = PyNone | PyFloat pyfloat

definition round_half_even :: "rat \<Rightarrow> int" where
  "round_half_even q = (let f = \<lfloor>q\<rfloor>; d = q - of_int f in
     if d < 1 / 2 then f else if 1 / 2 < d then f + 1
     else if even f then f else f + 1)"

definition digit_char :: "nat \<Rightarrow> char" where
  "digit_char n = ''0123456789'' ! (n mod 10)"

function str_nat :: "nat \<Rightarrow> string" where
  "str_nat n = (if n < 10 then [digit_char n] else str_nat (n div 10) @ [digit_char n])"
  by pat_completeness auto
termination
  by (relation "measure id") auto

definition digits4 :: "nat \<Rightarrow> string" where
  "digits4 n = [digit_char (n div 1000), digit_char (n div 100),
                digit_char (n div 10), digit_char n]"

fun format_4f :: "pyfloat \<Rightarrow> string" where
  "format_4f (Finite x) =
     (let n = nat (round_half_even (\<bar>x\<bar> * 10000)) in
      (if x < 0 then ''-'' else []) @ str_nat (n div 10000) @ ''.'' @ digits4 (n mod 10000))"
| "format_4f NegZero = ''-0.0000''"
| "format_4f PosInf = ''inf''"
| "format_4f NegInf = ''-inf''"
| "format_4f NaN = ''nan''"

text \<open>\<open>f"{v:.4f}"\<close>: \<open>None\<close> does not accept the format and raises \<open>TypeError\<close>.\<close>

fun format_value_4f :: "pyval \<Rightarrow> string option" where
  "format_value_4f PyNone = None"
| "format_value_4f (PyFloat x) = Some (format_4f x)"

text \<open>\<open>dict.get(key, default)\<close>.\<close>

definition dict_get :: "(string \<rightharpoonup> pyval) \<Rightarrow> string \<Rightarrow> pyval \<Rightarrow> pyval" where
  "dict_get d k dflt = (case d k of None \<Rightarrow> dflt | Some v \<Rightarrow> v)"

text \<open>
  Binding a parameter of an SQL statement and reading it back from a \<open>REAL\<close> column:
  \<open>None\<close> is bound as NULL, and so is a NaN (SQLite has no NaN value); the negative
  zero is read back as \<open>0.0\<close>; any other float is read back as it was bound.
\<close>

fun sqlite_bind :: "pyval \<Rightarrow> pyfloat option" where
  "sqlite_bind PyNone = None"
| "sqlite_bind (PyFloat NaN) = None"
| "sqlite_bind (PyFloat NegZero) = Some (Finite 0)"
| "sqlite_bind (PyFloat x) = Some x"

section \<open>The database (\<open>database.py\<close>)\<close>

text \<open>
  The two tables of \<open>init_database\<close>, rows in rowid order. \<open>CURRENT_TIMESTAMP\<close> is the
  clock reading at the insert, an argument \<open>now\<close> of every operation that inserts.
  \<open>AUTOINCREMENT\<close> keeps, per table, the largest rowid ever used (\<open>users_seq\<close>,
  \<open>models_seq\<close>). Rowids are naturals. An \<open>INTEGER\<close> of SQLite is a signed 64-bit
  number: binding a Python \<open>int\<close> outside that range raises \<open>OverflowError\<close>, and an
  insert that would need a rowid beyond the largest one fails with the
  \<open>OperationalError\<close> "database or disk is full". The \<open>user_id\<close> column of \<open>models\<close>
  holds whatever integer the caller passed, since foreign keys are not enforced.
\<close>

type_synonym timestamp = nat

record user_row =
  u_id :: nat
  u_username :: string
  u_password_hash :: string
  u_email :: "string option"
  u_created_at :: timestamp

record model_row =
  m_id :: nat
  m_user_id :: int
  m_model_name :: string
  m_theta_0 :: pyfloat
  m_theta_1 :: pyfloat
  m_rmse :: pyfloat
  m_mae :: pyfloat
  m_r2_score :: pyfloat
  m_sklearn_rmse :: "pyfloat option"
  m_sklearn_mae :: "pyfloat option"
  m_sklearn_r2 :: "pyfloat option"
  m_equation :: string
  m_created_at :: timestamp

record database =
  users :: "user_row list"
  users_seq :: nat
  models :: "model_row list"
  models_seq :: nat

definition init_database :: database where
  "init_database = \<lparr>users = [], users_seq = 0, models = [], models_seq = 0\<rparr>"

text \<open>The dictionaries the read operations build from a selected row.\<close>

record user_dict =
  ud_id :: nat
  ud_username :: string
  ud_email :: "string option"
  ud_created_at :: timestamp

record model_dict =
  md_id :: nat
  md_model_name :: string
  md_theta_0 :: pyfloat
  md_theta_1 :: pyfloat
  md_rmse :: pyfloat
  md_mae :: pyfloat
  md_r2_score :: pyfloat
  md_sklearn_rmse :: "pyfloat option"
  md_sklearn_mae :: "pyfloat option"
  md_sklearn_r2 :: "pyfloat option"
  md_equation :: string
  md_created_at :: timestamp

datatype sql_error = IntegrityError

text \<open>The exceptions of the statements on the \<open>models\<close> table.\<close>

datatype exception = OverflowError | OperationalError | Sqlite sql_error

definition sqlite_int :: "int \<Rightarrow> bool" where
  "sqlite_int i \<longleftrightarrow> - (2 ^ 63) \<le> i \<and> i < 2 ^ 63"

text \<open>The rowid of an insert into an \<open>AUTOINCREMENT\<close> table.\<close>

definition next_rowid :: "nat \<Rightarrow> nat list \<Rightarrow> nat" where
  "next_rowid seq ids = Suc (fold max ids seq)"

definition hash_password :: "string \<Rightarrow> string" where
  "hash_password password = sha256_hexdigest (utf8_encode password)"

definition verify_password :: "string \<Rightarrow> string \<Rightarrow> bool" where
  "verify_password password password_hash \<longleftrightarrow> hash_password password = password_hash"

text \<open>
  \<open>INSERT INTO users (username, password_hash, email)\<close>: \<open>username\<close> is UNIQUE, and so
  is \<open>email\<close>, where NULLs do not collide.
\<close>

definition insert_user ::
  "database \<Rightarrow> timestamp \<Rightarrow> string \<Rightarrow> string \<Rightarrow> string option \<Rightarrow> sql_error + database" where
  "insert_user db now username password_hash email =
     (if find (\<lambda>r. u_username r = username) (users db) \<noteq> None then Inl IntegrityError
      else if email \<noteq> None \<and> find (\<lambda>r. u_email r = email) (users db) \<noteq> None
        then Inl IntegrityError
      else let rowid = next_rowid (users_seq db) (map u_id (users db)) in
        Inr (db\<lparr>users := users db @
                  [\<lparr>u_id = rowid, u_username = username, u_password_hash = password_hash,
                    u_email = email, u_created_at = now\<rparr>],
                users_seq := rowid\<rparr>))"

definition create_user ::
  "database \<Rightarrow> timestamp \<Rightarrow> string \<Rightarrow> string \<Rightarrow> string option \<Rightarrow> database \<times> bool" where
  "create_user db now username password email =
     (let password_hash = hash_password password in
      case insert_user db now username password_hash email of
        Inr db' \<Rightarrow> (db', True)
      | Inl IntegrityError \<Rightarrow> (db, False))"

definition authenticate_user :: "database \<Rightarrow> string \<Rightarrow> string \<Rightarrow> nat option" where
  "authenticate_user db username password =
     (case find (\<lambda>r. u_username r = username) (users db) of
        Some result \<Rightarrow>
          if verify_password password (u_password_hash result) then Some (u_id result) else None
      | None \<Rightarrow> None)"

definition get_user_by_id :: "database \<Rightarrow> nat \<Rightarrow> user_dict option" where
  "get_user_by_id db user_id =
     (case find (\<lambda>r. u_id r = user_id) (users db) of
        Some result \<Rightarrow>
          Some \<lparr>ud_id = u_id result, ud_username = u_username result,
                ud_email = u_email result, ud_created_at = u_created_at result\<rparr>
      | None \<Rightarrow> None)"

text \<open>
  \<open>INSERT OR REPLACE INTO models\<close>: the parameters are bound first, and a \<open>user_id\<close>
  outside the 64-bit range raises \<open>OverflowError\<close>. A NULL in a \<open>NOT NULL\<close> column
  without default aborts the statement, and so does a rowid beyond the largest one;
  otherwise the rows that collide on \<open>UNIQUE(user_id, model_name)\<close> are deleted and the
  new row is inserted under a fresh rowid. Foreign keys are not enforced (the connection
  never switches them on).
\<close>

definition insert_or_replace_model ::
  "database \<Rightarrow> timestamp \<Rightarrow> int \<Rightarrow> string \<Rightarrow> pyfloat option \<Rightarrow> pyfloat option \<Rightarrow>
   pyfloat option \<Rightarrow> pyfloat option \<Rightarrow> pyfloat option \<Rightarrow> pyfloat option \<Rightarrow> pyfloat option \<Rightarrow>
   pyfloat option \<Rightarrow> string \<Rightarrow> exception + database" where
  "insert_or_replace_model db now user_id model_name theta_0 theta_1 rmse mae r2_score
       sklearn_rmse sklearn_mae sklearn_r2 equation =
     (if \<not> sqlite_int user_id then Inl OverflowError
      else
       (case (theta_0, theta_1, rmse, mae, r2_score) of
          (Some t0, Some t1, Some v_rmse, Some v_mae, Some v_r2) \<Rightarrow>
            let rowid = next_rowid (models_seq db) (map m_id (models db));
                kept = filter (\<lambda>r. \<not> (m_user_id r = user_id \<and> m_model_name r = model_name))
                         (models db)
            in if 2 ^ 63 \<le> rowid then Inl OperationalError
               else Inr (db\<lparr>models := kept @
                     [\<lparr>m_id = rowid, m_user_id = user_id, m_model_name = model_name,
                       m_theta_0 = t0, m_theta_1 = t1, m_rmse = v_rmse, m_mae = v_mae,
                       m_r2_score = v_r2, m_sklearn_rmse = sklearn_rmse,
                       m_sklearn_mae = sklearn_mae, m_sklearn_r2 = sklearn_r2,
                       m_equation = equation, m_created_at = now\<rparr>],
                    models_seq := rowid\<rparr>)
        | _ \<Rightarrow> Inl (Sqlite IntegrityError)))"

text \<open>
  \<open>save_model\<close>: the equation is formatted first, inside the \<open>try\<close>; a \<open>TypeError\<close> of
  the formatting and every exception of the statement are caught and give \<open>False\<close>.
\<close>

definition save_model ::
  "database \<Rightarrow> timestamp \<Rightarrow> int \<Rightarrow> string \<Rightarrow> (string \<rightharpoonup> pyval) \<Rightarrow> database \<times> bool" where
  "save_model db now user_id model_name model_data =
     (case (format_value_4f (dict_get model_data ''theta_1'' (PyFloat (Finite 0))),
            format_value_4f (dict_get model_data ''theta_0'' (PyFloat (Finite 0)))) of
        (Some s1, Some s0) \<Rightarrow>
          let equation = ''y = '' @ s1 @ ''x + '' @ s0 in
          (case insert_or_replace_model db now user_id model_name
                  (sqlite_bind (dict_get model_data ''theta_0'' (PyFloat (Finite 0))))
                  (sqlite_bind (dict_get model_data ''theta_1'' (PyFloat (Finite 0))))
                  (sqlite_bind (dict_get model_data ''rmse'' (PyFloat (Finite 0))))
                  (sqlite_bind (dict_get model_data ''mae'' (PyFloat (Finite 0))))
                  (sqlite_bind (dict_get model_data ''r2_score'' (PyFloat (Finite 0))))
                  (sqlite_bind (dict_get model_data ''sklearn_rmse'' PyNone))
                  (sqlite_bind (dict_get model_data ''sklearn_mae'' PyNone))
                  (sqlite_bind (dict_get model_data ''sklearn_r2'' PyNone))
                  equation of
             Inr db' \<Rightarrow> (db', True)
           | Inl e \<Rightarrow> (db, False))
      | _ \<Rightarrow> (db, False))"

text \<open>The row that an accepted \<open>save_model\<close> writes, and the example of the
  specification's scenario (\<open>theta_0=1.5, theta_1=2.3, rmse=0.1, mae=0.1, r2=0.9\<close>, the
  reference metrics left out by the client): the doubles nearest to these decimals,
  with denominators \<open>2\<^sup>5\<^sup>0\<close>, \<open>2\<^sup>5\<^sup>5\<close> and \<open>2\<^sup>5\<^sup>3\<close>.\<close>

definition new_model_row ::
  "database \<Rightarrow> timestamp \<Rightarrow> int \<Rightarrow> string \<Rightarrow> (string \<rightharpoonup> pyval) \<Rightarrow> model_row" where
  "new_model_row d now user_id model_name model_data =
     \<lparr>m_id = next_rowid (models_seq d) (map m_id (models d)), m_user_id = user_id,
      m_model_name = model_name,
      m_theta_0 = the (sqlite_bind (dict_get model_data ''theta_0'' (PyFloat (Finite 0)))),
      m_theta_1 = the (sqlite_bind (dict_get model_data ''theta_1'' (PyFloat (Finite 0)))),
      m_rmse = the (sqlite_bind (dict_get model_data ''rmse'' (PyFloat (Finite 0)))),
      m_mae = the (sqlite_bind (dict_get model_data ''mae'' (PyFloat (Finite 0)))),
      m_r2_score = the (sqlite_bind (dict_get model_data ''r2_score'' (PyFloat (Finite 0)))),
      m_sklearn_rmse = sqlite_bind (dict_get model_data ''sklearn_rmse'' PyNone),
      m_sklearn_mae = sqlite_bind (dict_get model_data ''sklearn_mae'' PyNone),
      m_sklearn_r2 = sqlite_bind (dict_get model_data ''sklearn_r2'' PyNone),
      m_equation = ''y = '' @
        the (format_value_4f (dict_get model_data ''theta_1'' (PyFloat (Finite 0)))) @
        ''x + '' @
        the (format_value_4f (dict_get model_data ''theta_0'' (PyFloat (Finite 0)))),
      m_created_at = now\<rparr>"

definition accepted :: "(string \<rightharpoonup> pyval) \<Rightarrow> bool" where
  "accepted model_data \<longleftrightarrow>
     list_all (\<lambda>k. sqlite_bind (dict_get model_data k (PyFloat (Finite 0))) \<noteq> None)
       [''theta_0'', ''theta_1'', ''rmse'', ''mae'', ''r2_score'']"

definition scenario_data :: "string \<rightharpoonup> pyval" where
  "scenario_data =
     [''theta_0'' \<mapsto> PyFloat (Finite (3 / 2)),
      ''theta_1'' \<mapsto> PyFloat (Finite (2589569785738035 / 1125899906842624)),
      ''rmse'' \<mapsto> PyFloat (Finite (3602879701896397 / 36028797018963968)),
      ''mae'' \<mapsto> PyFloat (Finite (3602879701896397 / 36028797018963968)),
      ''r2_score'' \<mapsto> PyFloat (Finite (8106479329266893 / 9007199254740992)),
      ''sklearn_rmse'' \<mapsto> PyNone, ''sklearn_mae'' \<mapsto> PyNone, ''sklearn_r2'' \<mapsto> PyNone]"

definition model_dict_of :: "model_row \<Rightarrow> model_dict" where
  "model_dict_of result =
     \<lparr>md_id = m_id result, md_model_name = m_model_name result,
      md_theta_0 = m_theta_0 result, md_theta_1 = m_theta_1 result,
      md_rmse = m_rmse result, md_mae = m_mae result, md_r2_score = m_r2_score result,
      md_sklearn_rmse = m_sklearn_rmse result, md_sklearn_mae = m_sklearn_mae result,
      md_sklearn_r2 = m_sklearn_r2 result, md_equation = m_equation result,
      md_created_at = m_created_at result\<rparr>"

text \<open>
  \<open>ORDER BY created_at DESC\<close>: SQL leaves the order of rows with equal \<open>created_at\<close>
  open; the model takes the reverse of the stable ascending sort.
\<close>

definition get_user_models :: "database \<Rightarrow> int \<Rightarrow> exception + model_dict list" where
  "get_user_models db user_id =
     (if \<not> sqlite_int user_id then Inl OverflowError
      else Inr (map model_dict_of
        (rev (sort_key m_created_at (filter (\<lambda>r. m_user_id r = user_id) (models db))))))"

text \<open>
  \<open>get_model_by_id\<close> has no \<open>try\<close>: the \<open>OverflowError\<close> of a parameter that does not
  fit reaches the caller. \<open>delete_model\<close> catches it and returns \<open>False\<close>.
\<close>

definition get_model_by_id :: "database \<Rightarrow> int \<Rightarrow> int \<Rightarrow> exception + model_dict option" where
  "get_model_by_id db model_id user_id =
     (if \<not> (sqlite_int model_id \<and> sqlite_int user_id) then Inl OverflowError
      else
       (case find (\<lambda>r. int (m_id r) = model_id \<and> m_user_id r = user_id) (models db) of
          Some result \<Rightarrow> Inr (Some (model_dict_of result))
        | None \<Rightarrow> Inr None))"

definition delete_model :: "database \<Rightarrow> int \<Rightarrow> int \<Rightarrow> database \<times> bool" where
  "delete_model db model_id user_id =
     (if \<not> (sqlite_int model_id \<and> sqlite_int user_id) then (db, False)
      else
        let hit = (\<lambda>r. int (m_id r) = model_id \<and> m_user_id r = user_id);
            rowcount = length (filter hit (models db));
            deleted = (rowcount > 0)
        in (db\<lparr>models := filter (\<lambda>r. \<not> hit r) (models db)\<rparr>, deleted))"

text \<open>
  The constraints of the schema, which every table the program has built satisfies:
  the primary keys are distinct and positive, usernames are distinct, emails that are
  not NULL are distinct, and so are the pairs \<open>(user_id, model_name)\<close>; the integers of
  the \<open>models\<close> table fit 64 bits.
\<close>

definition wf_db :: "database \<Rightarrow> bool" where
  "wf_db db \<longleftrightarrow>
     distinct (map u_id (users db)) \<and> 0 \<notin> set (map u_id (users db)) \<and>
     distinct (map u_username (users db)) \<and>
     distinct (filter (\<lambda>e. e \<noteq> None) (map u_email (users db))) \<and>
     distinct (map m_id (models db)) \<and> 0 \<notin> set (map m_id (models db)) \<and>
     distinct (map (\<lambda>r. (m_user_id r, m_model_name r)) (models db)) \<and>
     list_all (\<lambda>r. m_id r < 2 ^ 63 \<and> sqlite_int (m_user_id r)) (models db)"

section \<open>The controller (\<open>auth_controller.py\<close>)\<close>

record session =
  s_user_id :: nat
  s_username :: string
  s_created_at :: string

text \<open>
  The state of the process: the global \<open>db\<close> and the \<open>active_sessions\<close> dictionary of
  the global \<open>auth_controller\<close>.
\<close>

record app_state =
  db :: database
  active_sessions :: "string \<rightharpoonup> session"

definition init_state :: app_state where
  "init_state = \<lparr>db = init_database, active_sessions = Map.empty\<rparr>"

datatype error = HTTPException nat string | TypeError

record public_user =
  pu_id :: nat
  pu_username :: string
  pu_email :: "string option"

record signup_result =
  su_success :: bool
  su_message :: string
  su_user :: public_user

record signin_result =
  si_success :: bool
  si_message :: string
  si_session_id :: string
  si_user :: public_user

record signout_result =
  so_success :: bool
  so_message :: string

text \<open>
  \<open>create_session\<close>: \<open>uuid4\<close> is the string \<open>str(uuid.uuid4())\<close> that the call draws
  from the operating system's random source.
\<close>

definition create_session ::
  "app_state \<Rightarrow> string \<Rightarrow> nat \<Rightarrow> string \<Rightarrow> app_state \<times> string" where
  "create_session st uuid4 user_id username =
     (let session_id = uuid4 in
      (st\<lparr>active_sessions := (active_sessions st)(session_id \<mapsto>
            \<lparr>s_user_id = user_id, s_username = username, s_created_at = ''2024-01-01''\<rparr>)\<rparr>,
       session_id))"

definition get_session :: "app_state \<Rightarrow> string \<Rightarrow> session option" where
  "get_session st session_id = active_sessions st session_id"

definition delete_session :: "app_state \<Rightarrow> string \<Rightarrow> app_state" where
  "delete_session st session_id =
     (if active_sessions st session_id \<noteq> None
      then st\<lparr>active_sessions := (active_sessions st)(session_id := None)\<rparr>
      else st)"

definition public_of :: "user_dict \<Rightarrow> public_user" where
  "public_of user =
     \<lparr>pu_id = ud_id user, pu_username = ud_username user, pu_email = ud_email user\<rparr>"

text \<open>
  \<open>signup\<close>. When \<open>authenticate_user\<close> gives \<open>None\<close>, \<open>get_user_by_id(None)\<close> selects no
  row, and subscripting its \<open>None\<close> raises \<open>TypeError\<close>.
\<close>

definition signup ::
  "app_state \<Rightarrow> timestamp \<Rightarrow> string \<Rightarrow> string \<Rightarrow> string option \<Rightarrow>
   app_state \<times> (error + signup_result)" where
  "signup st now username password email =
     (if length username < 3
        then (st, Inl (HTTPException 400 ''Username must be at least 3 characters''))
      else if length password < 6
        then (st, Inl (HTTPException 400 ''Password must be at least 6 characters''))
      else
        let (db', success) = create_user (db st) now username password email;
            st' = st\<lparr>db := db'\<rparr>
        in if \<not> success then (st', Inl (HTTPException 400 ''Username already exists''))
           else
             (case (case authenticate_user db' username password of
                      Some user_id \<Rightarrow> get_user_by_id db' user_id
                    | None \<Rightarrow> None) of
                None \<Rightarrow> (st', Inl TypeError)
              | Some user \<Rightarrow>
                  (st', Inr \<lparr>su_success = True, su_message = ''User created successfully'',
                             su_user = public_of user\<rparr>)))"

text \<open>\<open>signin\<close>; \<open>not user_id\<close> holds for \<open>None\<close> and for \<open>0\<close>.\<close>

definition signin ::
  "app_state \<Rightarrow> string \<Rightarrow> string \<Rightarrow> string \<Rightarrow> app_state \<times> (error + signin_result)" where
  "signin st uuid4 username password =
     (case authenticate_user (db st) username password of
        None \<Rightarrow> (st, Inl (HTTPException 401 ''Invalid username or password''))
      | Some user_id \<Rightarrow>
          if user_id = 0 then (st, Inl (HTTPException 401 ''Invalid username or password''))
          else
            (case get_user_by_id (db st) user_id of
               None \<Rightarrow> (st, Inl TypeError)
             | Some user \<Rightarrow>
                 let (st', session_id) = create_session st uuid4 user_id (ud_username user)
                 in (st', Inr \<lparr>si_success = True, si_message = ''Sign in successful'',
                               si_session_id = session_id, si_user = public_of user\<rparr>)))"

definition signout :: "app_state \<Rightarrow> string \<Rightarrow> app_state \<times> signout_result" where
  "signout st session_id =
     (if active_sessions st session_id \<noteq> None
      then (delete_session st session_id,
            \<lparr>so_success = True, so_message = ''Sign out successful''\<rparr>)
      else (st, \<lparr>so_success = False, so_message = ''Session not found''\<rparr>))"

definition get_current_user :: "app_state \<Rightarrow> string \<Rightarrow> user_dict option" where
  "get_current_user st session_id =
     (case get_session st session_id of
        Some session \<Rightarrow> get_user_by_id (db st) (s_user_id session)
      | None \<Rightarrow> None)"

definition is_authenticated :: "app_state \<Rightarrow> string \<Rightarrow> bool" where
  "is_authenticated st session_id \<longleftrightarrow> active_sessions st session_id \<noteq> None"

text \<open>An example state: the process after its first signup.\<close>

definition alice_state :: app_state where
  "alice_state = fst (signup init_state 100 ''alice'' ''secret1'' (Some ''a@x.com''))"

text \<open>The example continued: alice (user 1) has saved the scenario's model as "m1".\<close>

definition m1_db :: database where
  "m1_db = fst (save_model (db alice_state) 300 1 ''m1'' scenario_data)"

text \<open>Another first signup: the same user at the same time, with another password.\<close>

definition alice_state2 :: app_state where
  "alice_state2 = fst (signup init_state 100 ''alice'' ''hunter22'' (Some ''a@x.com''))"

section \<open>Runs of the process\<close>

text \<open>
  The calls a client of the two global objects can make, each with the values it reads
  from the environment (the clock, the random identifier), and their effect on the state
  of the process. The read-only calls leave the state as it is.
\<close>

datatype operation =
    CreateSession string nat string
  | GetSession string
  | DeleteSession string
  | Signup timestamp string string "string option"
  | Signin string string string
  | Signout string
  | GetCurrentUser string
  | IsAuthenticated string
  | CreateUser timestamp string string "string option"
  | AuthenticateUser string string
  | GetUserById nat
  | SaveModel timestamp int string "string \<rightharpoonup> pyval"
  | GetUserModels int
  | GetModelById int int
  | DeleteModel int int

fun run_op :: "app_state \<Rightarrow> operation \<Rightarrow> app_state" where
  "run_op st (CreateSession uuid4 user_id username) =
     fst (create_session st uuid4 user_id username)"
| "run_op st (GetSession session_id) = st"
| "run_op st (DeleteSession session_id) = delete_session st session_id"
| "run_op st (Signup now username password email) =
     fst (signup st now username password email)"
| "run_op st (Signin uuid4 username password) = fst (signin st uuid4 username password)"
| "run_op st (Signout session_id) = fst (signout st session_id)"
| "run_op st (GetCurrentUser session_id) = st"
| "run_op st (IsAuthenticated session_id) = st"
| "run_op st (CreateUser now username password email) =
     st\<lparr>db := fst (create_user (db st) now username password email)\<rparr>"
| "run_op st (AuthenticateUser username password) = st"
| "run_op st (GetUserById user_id) = st"
| "run_op st (SaveModel now user_id model_name model_data) =
     st\<lparr>db := fst (save_model (db st) now user_id model_name model_data)\<rparr>"
| "run_op st (GetUserModels user_id) = st"
| "run_op st (GetModelById model_id user_id) = st"
| "run_op st (DeleteModel model_id user_id) =
     st\<lparr>db := fst (delete_model (db st) model_id user_id)\<rparr>"

definition run_ops :: "app_state \<Rightarrow> operation list \<Rightarrow> app_state" where
  "run_ops st ops = fold (\<lambda>operation s. run_op s operation) ops st"

text \<open>A database with the \<open>password_hash\<close> column blanked: what two databases that
  differ only in that column have in common.\<close>

definition erase_hashes :: "database \<Rightarrow> database" where
  "erase_hashes d = d\<lparr>users := map (\<lambda>r. r\<lparr>u_password_hash := []\<rparr>) (users d)\<rparr>"

section \<open>Notions of the specification\<close>

text \<open>
  What the specification calls a number formatted to four decimal places: an optional
  minus sign, at least one digit, a point, and exactly four digits.
\<close>

definition is_digit :: "char \<Rightarrow> bool" where
  "is_digit c \<longleftrightarrow> c \<in> set ''0123456789''"

definition four_decimals :: "string \<Rightarrow> bool" where
  "four_decimals s \<longleftrightarrow>
     (let body = (if take 1 s = ''-'' then drop 1 s else s);
          ip = takeWhile is_digit body;
          rest = drop (length ip) body
      in ip \<noteq> [] \<and> take 1 rest = ''.'' \<and> length rest = 5 \<and> list_all is_digit (drop 1 rest))"

section \<open>Properties\<close>

text \<open>The equations of the two functions below recurse under an \<open>if\<close>; they are
  used by name where a value is computed.\<close>

declare blocks.simps [simp del]
declare str_nat.simps [simp del]

subsection \<open>The digest is 64 hexadecimal digits\<close>

lemma length_round: "length (round kw s) = length s"
  by (cases "(kw, s)" rule: round.cases) (simp_all add: Let_def)

lemma length_fold_round: "length (fold round kws s) = length s"
  by (induction kws arbitrary: s) (simp_all add: length_round)

lemma length_compress: "length (compress block hs) = length hs"
  by (simp add: compress_def length_fold_round)

lemma length_fold_compress: "length (fold compress bs hs) = length hs"
  by (induction bs arbitrary: hs) (simp_all add: length_compress)

lemma length_concat_hex32: "length (concat (map hex32 ws)) = 8 * length ws"
  by (induction ws) (simp_all add: hex32_def)

lemma length_hash_password: "length (hash_password p) = 64"
  by (simp add: hash_password_def sha256_hexdigest_def length_concat_hex32
      length_fold_compress sha256_H0_def)

lemma hex_digit_range: "hex_digit n \<in> set ''0123456789abcdef''"
  unfolding hex_digit_def by (rule nth_mem) simp

lemma digit_char_range: "digit_char n \<in> set ''0123456789''"
  unfolding digit_char_def by (rule nth_mem) simp

lemma set_hex32: "set (hex32 w) \<subseteq> set ''0123456789abcdef''"
proof -
  have "hex_digit (unat (drop_bit k w AND 15)) \<in> set ''0123456789abcdef''" for k
    by (rule hex_digit_range)
  then show ?thesis
    unfolding hex32_def by (auto simp only: set_map)
qed

lemma set_hash_password: "set (hash_password p) \<subseteq> set ''0123456789abcdef''"
  unfolding hash_password_def sha256_hexdigest_def
  using set_hex32 by (auto simp only: set_concat set_map)




subsection \<open>Queries and row identifiers\<close>

lemma find_append:
  "find P (xs @ ys) = (case find P xs of None \<Rightarrow> find P ys | Some x \<Rightarrow> Some x)"
  by (induction xs) simp_all

lemma fold_max_ge: "seq \<le> fold max ids (seq :: nat)"
proof (induction ids arbitrary: seq)
  case Nil
  show ?case by simp
next
  case (Cons a ids)
  have "seq \<le> max a seq" by simp
  also have "\<dots> \<le> fold max ids (max a seq)" by (rule Cons.IH)
  finally show ?case by simp
qed

lemma fold_max_mem: "i \<in> set ids \<Longrightarrow> i \<le> fold max ids (seq :: nat)"
proof (induction ids arbitrary: seq)
  case Nil
  then show ?case by simp
next
  case (Cons a ids)
  show ?case
  proof (cases "i = a")
    case True
    have "a \<le> max a seq" by simp
    also have "\<dots> \<le> fold max ids (max a seq)" by (rule fold_max_ge)
    finally show ?thesis using True by simp
  next
    case False
    with Cons show ?thesis by simp
  qed
qed

lemma next_rowid_fresh: "i \<in> set ids \<Longrightarrow> i < next_rowid seq ids"
  unfolding next_rowid_def using fold_max_mem [of i ids seq] by simp

lemma next_rowid_notin: "next_rowid seq ids \<notin> set ids"
  using next_rowid_fresh [of "next_rowid seq ids" ids seq] by auto

lemma next_rowid_pos: "0 < next_rowid seq ids"
  by (simp add: next_rowid_def)

lemma find_id_fresh:
  "find (\<lambda>r. u_id r = next_rowid seq (map u_id rows)) rows = None"
proof -
  have "u_id r \<noteq> next_rowid seq (map u_id rows)" if "r \<in> set rows" for r
    using that next_rowid_notin [of seq "map u_id rows"] by (metis image_eqI set_map)
  then show ?thesis by (simp add: find_None_iff)
qed

lemma alice_state_eq:
  "alice_state =
     \<lparr>db = \<lparr>users = [\<lparr>u_id = 1, u_username = ''alice'',
                        u_password_hash = hash_password ''secret1'',
                        u_email = Some ''a@x.com'', u_created_at = 100\<rparr>],
             users_seq = 1, models = [], models_seq = 0\<rparr>,
      active_sessions = Map.empty\<rparr>"
  by (simp add: alice_state_def signup_def create_user_def insert_user_def init_state_def
      init_database_def next_rowid_def authenticate_user_def verify_password_def
      get_user_by_id_def)

subsection \<open>Creating users\<close>

text \<open>
  C3. In every state in which a user with the username exists, \<open>create_user\<close> with
  that username returns \<open>False\<close> (a value, not an exception) and leaves the database
  as it is, and \<open>signup\<close> with that username fails with an \<open>HTTPException\<close> of status
  400 whatever the password and the email are, the state unchanged; with a valid
  username and password length the detail is "Username already exists". In every
  state in which a user with the email exists, \<open>create_user\<close> with that email returns
  \<open>False\<close> and leaves the database as it is.
\<close>

theorem duplicate_user_rejected:
  "(find (\<lambda>r. u_username r = username) (users (db st)) \<noteq> None \<longrightarrow>
      create_user (db st) now username password email = (db st, False) \<and>
      fst (signup st now username password email) = st \<and>
      (\<exists>detail. snd (signup st now username password email) = Inl (HTTPException 400 detail)) \<and>
      (3 \<le> length username \<and> 6 \<le> length password \<longrightarrow>
         snd (signup st now username password email) =
           Inl (HTTPException 400 ''Username already exists''))) \<and>
   (find (\<lambda>r. u_email r = Some e) (users (db st)) \<noteq> None \<longrightarrow>
      create_user (db st) now username' password' (Some e) = (db st, False))"
  by (simp add: create_user_def insert_user_def signup_def)

theorem duplicate_user_rejected_witness:
  "find (\<lambda>r. u_username r = ''alice'') (users (db alice_state)) \<noteq> None \<and>
   create_user (db alice_state) 200 ''alice'' ''otherpass'' (Some ''b@y.org'') =
     (db alice_state, False) \<and>
   signup alice_state 200 ''alice'' ''otherpass'' (Some ''b@y.org'') =
     (alice_state, Inl (HTTPException 400 ''Username already exists'')) \<and>
   find (\<lambda>r. u_email r = Some ''a@x.com'') (users (db alice_state)) \<noteq> None \<and>
   create_user (db alice_state) 200 ''bob'' ''hunter22'' (Some ''a@x.com'') =
     (db alice_state, False)"
proof -
  have u: "find (\<lambda>r. u_username r = ''alice'') (users (db alice_state)) \<noteq> None"
    by (simp add: alice_state_eq)
  have e: "find (\<lambda>r. u_email r = Some ''a@x.com'') (users (db alice_state)) \<noteq> None"
    by (simp add: alice_state_eq)
  show ?thesis
    using u e
      duplicate_user_rejected [of "''alice''" alice_state 200 "''otherpass''"
        "Some ''b@y.org''" "''a@x.com''" "''bob''" "''hunter22''"]
    by (simp add: prod_eq_iff)
qed

text \<open>
  A signup with valid lengths and a username that is not stored is refused when its
  email is already stored (\<open>email\<close> is UNIQUE), with the detail "Username already
  exists".
\<close>

lemma signup_email_collision:
  "3 \<le> length ''bob'' \<and> 6 \<le> length ''hunter22'' \<and>
   find (\<lambda>r. u_username r = ''bob'') (users (db alice_state)) = None \<and>
   signup alice_state 200 ''bob'' ''hunter22'' (Some ''a@x.com'') =
     (alice_state, Inl (HTTPException 400 ''Username already exists''))"
  by (simp add: alice_state_eq signup_def create_user_def insert_user_def)

text \<open>
  For every signup input whose username has length at least 3, whose password has
  length at least 6, whose username is not stored and whose email is absent or not
  stored, \<open>signup\<close> succeeds, stores one new row and returns the public fields \<open>id\<close>,
  \<open>username\<close>, \<open>email\<close> of that row (the result record has no field for the hash). The
  stored hash is the digest of the password, 64 hexadecimal digits; it differs from
  the password whenever the password is not itself a string of 64 hexadecimal digits.
  Whether such a string can be its own digest is left open.
\<close>

lemma signup_new_user:
  assumes "3 \<le> length username" and "6 \<le> length password"
    and "find (\<lambda>r. u_username r = username) (users (db st)) = None"
    and "email = None \<or> find (\<lambda>r. u_email r = email) (users (db st)) = None"
  shows "let uid = next_rowid (users_seq (db st)) (map u_id (users (db st)));
             row = \<lparr>u_id = uid, u_username = username,
                    u_password_hash = hash_password password, u_email = email,
                    u_created_at = now\<rparr>
         in signup st now username password email =
              (st\<lparr>db := (db st)\<lparr>users := users (db st) @ [row], users_seq := uid\<rparr>\<rparr>,
               Inr \<lparr>su_success = True, su_message = ''User created successfully'',
                    su_user = \<lparr>pu_id = uid, pu_username = username, pu_email = email\<rparr>\<rparr>) \<and>
            length (u_password_hash row) = 64 \<and>
            set (u_password_hash row) \<subseteq> set ''0123456789abcdef'' \<and>
            (length password \<noteq> 64 \<or> \<not> set password \<subseteq> set ''0123456789abcdef''
               \<longrightarrow> u_password_hash row \<noteq> password)"
proof -
  have differs: "hash_password password \<noteq> password"
    if "length password \<noteq> 64 \<or> \<not> set password \<subseteq> set ''0123456789abcdef''"
    using that length_hash_password [of password] set_hash_password [of password] by metis
  have created: "create_user (db st) now username password email =
      ((db st)\<lparr>users := users (db st) @
          [\<lparr>u_id = next_rowid (users_seq (db st)) (map u_id (users (db st))),
            u_username = username, u_password_hash = hash_password password,
            u_email = email, u_created_at = now\<rparr>],
        users_seq := next_rowid (users_seq (db st)) (map u_id (users (db st)))\<rparr>, True)"
    using assms(3,4) by (auto simp: create_user_def insert_user_def Let_def)
  show ?thesis
    using assms(1,2,3) differs
    by (simp add: signup_def created authenticate_user_def verify_password_def
        get_user_by_id_def find_append find_id_fresh public_of_def Let_def
        length_hash_password set_hash_password del: set_simps)
qed

lemma signup_new_user_example:
  "signup alice_state 200 ''bob'' ''hunter22'' (Some ''b@y.org'') =
     (alice_state\<lparr>db := (db alice_state)\<lparr>users := users (db alice_state) @
         [\<lparr>u_id = 2, u_username = ''bob'', u_password_hash = hash_password ''hunter22'',
           u_email = Some ''b@y.org'', u_created_at = 200\<rparr>], users_seq := 2\<rparr>\<rparr>,
      Inr \<lparr>su_success = True, su_message = ''User created successfully'',
           su_user = \<lparr>pu_id = 2, pu_username = ''bob'', pu_email = Some ''b@y.org''\<rparr>\<rparr>) \<and>
   hash_password ''hunter22'' \<noteq> ''hunter22''"
proof -
  have h3: "find (\<lambda>r. u_username r = ''bob'') (users (db alice_state)) = None"
    by (simp add: alice_state_eq)
  have h4: "Some ''b@y.org'' = None \<or>
      find (\<lambda>r. u_email r = Some ''b@y.org'') (users (db alice_state)) = None"
    by (simp add: alice_state_eq)
  have id2: "next_rowid (users_seq (db alice_state)) (map u_id (users (db alice_state))) = 2"
    by (simp add: alice_state_eq next_rowid_def)
  show ?thesis
    using signup_new_user [of "''bob''" "''hunter22''" alice_state "Some ''b@y.org''" 200, OF _ _ h3 h4]
    by (simp add: Let_def id2)
qed

subsection \<open>Signing out\<close>

text \<open>
  C5. After \<open>signout(s)\<close> the session identifier \<open>s\<close> is not authenticated and has no
  current user, whatever the state before; and when \<open>s\<close> was not an active session,
  \<open>signout(s)\<close> returns the not-found result (no exception) and the state, the session
  store with it, is unchanged.
\<close>

theorem signout_ends_session:
  "\<not> is_authenticated (fst (signout st s)) s \<and>
   get_current_user (fst (signout st s)) s = None \<and>
   (\<not> is_authenticated st s \<longrightarrow>
      signout st s = (st, \<lparr>so_success = False, so_message = ''Session not found''\<rparr>))"
  by (simp add: signout_def delete_session_def is_authenticated_def get_current_user_def
      get_session_def)

theorem signout_ends_session_witness:
  "\<not> is_authenticated init_state ''s1'' \<and>
   signout init_state ''s1'' =
     (init_state, \<lparr>so_success = False, so_message = ''Session not found''\<rparr>)"
  using signout_ends_session [of init_state "''s1''"]
  by (simp add: is_authenticated_def init_state_def)

subsection \<open>Saving and listing models\<close>

text \<open>
  \<open>save_model\<close> has two outcomes. When the five required values can be bound to their
  \<open>NOT NULL\<close> columns, the user identifier fits 64 bits and a rowid is left, the row of
  the same user and name is replaced by a row with a new identifier and the result is
  \<open>True\<close>; otherwise nothing changes and the result is \<open>False\<close>.
\<close>

lemma sqlite_bind_Some_float: "sqlite_bind v \<noteq> None \<Longrightarrow> \<exists>x. v = PyFloat x \<and> x \<noteq> NaN"
  by (cases "v" rule: sqlite_bind.cases) auto

lemma sqlite_bind_format:
  "sqlite_bind v \<noteq> None \<Longrightarrow> format_value_4f v \<noteq> None"
  by (cases v) auto

lemma save_model_accepted:
  assumes "accepted model_data" and "sqlite_int user_id"
    and "next_rowid (models_seq d) (map m_id (models d)) < 2 ^ 63"
  shows "save_model d now user_id model_name model_data =
     (d\<lparr>models := filter (\<lambda>r. \<not> (m_user_id r = user_id \<and> m_model_name r = model_name))
                     (models d) @ [new_model_row d now user_id model_name model_data],
        models_seq := next_rowid (models_seq d) (map m_id (models d))\<rparr>, True)"
proof -
  from assms(1) obtain t0 t1 v_rmse v_mae v_r2 where b:
    "sqlite_bind (dict_get model_data ''theta_0'' (PyFloat (Finite 0))) = Some t0"
    "sqlite_bind (dict_get model_data ''theta_1'' (PyFloat (Finite 0))) = Some t1"
    "sqlite_bind (dict_get model_data ''rmse'' (PyFloat (Finite 0))) = Some v_rmse"
    "sqlite_bind (dict_get model_data ''mae'' (PyFloat (Finite 0))) = Some v_mae"
    "sqlite_bind (dict_get model_data ''r2_score'' (PyFloat (Finite 0))) = Some v_r2"
    unfolding accepted_def by auto
  from b(1,2) obtain s0 s1 where f:
    "format_value_4f (dict_get model_data ''theta_0'' (PyFloat (Finite 0))) = Some s0"
    "format_value_4f (dict_get model_data ''theta_1'' (PyFloat (Finite 0))) = Some s1"
    using sqlite_bind_format by (metis option.distinct(1) option.exhaust)
  have n: "\<not> (2 :: nat) ^ 63 \<le> next_rowid (models_seq d) (map m_id (models d))"
    using assms(3) by simp
  show ?thesis
    unfolding save_model_def insert_or_replace_model_def new_model_row_def
    by (simp add: b f n assms(2) Let_def del: power_numeral)
qed

lemma save_model_rejected:
  assumes "\<not> (accepted model_data \<and> sqlite_int user_id \<and>
    next_rowid (models_seq d) (map m_id (models d)) < 2 ^ 63)"
  shows "save_model d now user_id model_name model_data = (d, False)"
proof -
  have "(case insert_or_replace_model d now user_id model_name
      (sqlite_bind (dict_get model_data ''theta_0'' (PyFloat (Finite 0))))
      (sqlite_bind (dict_get model_data ''theta_1'' (PyFloat (Finite 0))))
      (sqlite_bind (dict_get model_data ''rmse'' (PyFloat (Finite 0))))
      (sqlite_bind (dict_get model_data ''mae'' (PyFloat (Finite 0))))
      (sqlite_bind (dict_get model_data ''r2_score'' (PyFloat (Finite 0))))
      x y z eq of Inr db' \<Rightarrow> (db', True) | Inl e \<Rightarrow> (d, False)) = (d, False)" for x y z eq
    using assms unfolding insert_or_replace_model_def accepted_def
    by (auto split: option.splits simp: Let_def not_less simp del: power_numeral)
  then show ?thesis
    unfolding save_model_def by (simp split: option.splits)
qed

lemma save_model_TrueD:
  assumes "save_model d now user_id model_name model_data = (d', True)"
  shows "accepted model_data" and "sqlite_int user_id"
    and "next_rowid (models_seq d) (map m_id (models d)) < 2 ^ 63"
    and "d' = d\<lparr>models := filter (\<lambda>r. \<not> (m_user_id r = user_id \<and> m_model_name r = model_name))
                     (models d) @ [new_model_row d now user_id model_name model_data],
        models_seq := next_rowid (models_seq d) (map m_id (models d))\<rparr>"
proof -
  have a: "accepted model_data \<and> sqlite_int user_id \<and>
    next_rowid (models_seq d) (map m_id (models d)) < 2 ^ 63"
    using assms save_model_rejected [of model_data user_id d now model_name] by auto
  then show "accepted model_data" and "sqlite_int user_id"
    and "next_rowid (models_seq d) (map m_id (models d)) < 2 ^ 63" by simp_all
  show "d' = d\<lparr>models := filter (\<lambda>r. \<not> (m_user_id r = user_id \<and> m_model_name r = model_name))
                     (models d) @ [new_model_row d now user_id model_name model_data],
        models_seq := next_rowid (models_seq d) (map m_id (models d))\<rparr>"
    using assms a save_model_accepted [of model_data user_id d now model_name] by simp
qed

lemma save_model_False: "save_model d now user_id model_name model_data = (d', False) \<Longrightarrow> d' = d"
  by (cases "accepted model_data \<and> sqlite_int user_id \<and>
      next_rowid (models_seq d) (map m_id (models d)) < 2 ^ 63")
    (simp_all add: save_model_accepted save_model_rejected del: power_numeral)

lemma filter_model_dicts:
  "filter (\<lambda>e. md_model_name e = n)
     (map model_dict_of (rev (sort_key m_created_at (filter (\<lambda>r. m_user_id r = u) rows)))) =
   map model_dict_of
     (rev (sort_key m_created_at (filter (\<lambda>r. m_user_id r = u \<and> m_model_name r = n) rows)))"
proof -
  have "filter (\<lambda>e. md_model_name e = n) (map model_dict_of xs) =
      map model_dict_of (filter (\<lambda>r. m_model_name r = n) xs)" for xs
    by (induction xs) (simp_all add: model_dict_of_def)
  then show ?thesis
    by (simp add: rev_filter [symmetric] filter_sort conj_commute)
qed

lemma saved_entry:
  assumes "save_model d now u n model_data = (d', True)"
  shows "\<exists>ms. get_user_models d' u = Inr ms \<and>
           filter (\<lambda>e. md_model_name e = n) ms =
             [model_dict_of (new_model_row d now u n model_data)]"
proof -
  note s = save_model_TrueD [OF assms]
  define new where "new = new_model_row d now u n model_data"
  have k: "filter (\<lambda>r. m_user_id r = u \<and> m_model_name r = n)
          (filter (\<lambda>r. \<not> (m_user_id r = u \<and> m_model_name r = n)) xs) = []" for xs :: "model_row list"
    by (induction xs) simp_all
  have nw: "m_user_id new = u \<and> m_model_name new = n"
    by (simp add: new_def new_model_row_def)
  have m: "models d' = filter (\<lambda>r. \<not> (m_user_id r = u \<and> m_model_name r = n)) (models d) @ [new]"
    by (simp add: s(4) new_def)
  have "filter (\<lambda>r. m_user_id r = u \<and> m_model_name r = n) (models d') = [new]"
    unfolding m filter_append k using nw by simp
  then have "filter (\<lambda>e. md_model_name e = n)
      (map model_dict_of (rev (sort_key m_created_at
         (filter (\<lambda>r. m_user_id r = u) (models d'))))) = [model_dict_of new]"
    unfolding filter_model_dicts by simp
  then show ?thesis
    unfolding get_user_models_def new_def using s(2) by simp
qed

lemma set_str_nat: "set (str_nat k) \<subseteq> set ''0123456789''"
proof (induction k rule: str_nat.induct)
  case (1 n)
  have d: "set [digit_char n] \<subseteq> set ''0123456789''"
    using digit_char_range [of n] by simp
  show ?case
  proof (cases "n < 10")
    case True
    then have "str_nat n = [digit_char n]" by (subst str_nat.simps) simp
    with d show ?thesis by (simp only:)
  next
    case False
    then have "str_nat n = str_nat (n div 10) @ [digit_char n]"
      by (subst str_nat.simps) simp
    moreover have "set (str_nat (n div 10)) \<subseteq> set ''0123456789''"
      using 1 False by simp
    ultimately show ?thesis using d by (simp only: set_append Un_subset_iff)
  qed
qed

lemma str_nat_not_Nil: "str_nat k \<noteq> []"
  by (subst str_nat.simps) simp

lemma round_half_even_near:
  assumes "of_int z - 1 / 2 < q" and "q < of_int z + 1 / 2"
  shows "round_half_even q = z"
proof (cases "of_int z \<le> q")
  case True
  then have "\<lfloor>q\<rfloor> = z" using assms(2) by (intro floor_unique) auto
  then show ?thesis using assms(2) by (simp add: round_half_even_def Let_def)
next
  case False
  then have f: "\<lfloor>q\<rfloor> = z - 1" using assms(1) by (intro floor_unique) auto
  have "1 / 2 < q - of_int (z - 1)" using assms(1) by simp
  then show ?thesis using f by (simp add: round_half_even_def Let_def)
qed

lemma str_nat_digit: "n < 10 \<Longrightarrow> str_nat n = [digit_char n]"
  by (subst str_nat.simps) simp

lemma format_scenario:
  "format_4f (Finite (2589569785738035 / 1125899906842624)) = ''2.3000''"
  "format_4f (Finite (3 / 2)) = ''1.5000''"
proof -
  have "round_half_even (\<bar>2589569785738035 / 1125899906842624\<bar> * 10000) = 23000"
    by (rule round_half_even_near) simp_all
  then show "format_4f (Finite (2589569785738035 / 1125899906842624)) = ''2.3000''"
    by (simp add: str_nat_digit digits4_def digit_char_def)
  have "round_half_even (\<bar>3 / 2\<bar> * 10000) = 15000"
    by (rule round_half_even_near) simp_all
  then show "format_4f (Finite (3 / 2)) = ''1.5000''"
    by (simp add: str_nat_digit digits4_def digit_char_def)
qed

lemma accepted_scenario: "accepted scenario_data"
  by (simp add: accepted_def scenario_data_def dict_get_def)

lemma m1_db_eq:
  "m1_db = \<lparr>users = [\<lparr>u_id = 1, u_username = ''alice'',
                        u_password_hash = hash_password ''secret1'',
                        u_email = Some ''a@x.com'', u_created_at = 100\<rparr>],
             users_seq = 1,
             models = [\<lparr>m_id = 1, m_user_id = 1, m_model_name = ''m1'',
                        m_theta_0 = Finite (3 / 2),
                        m_theta_1 = Finite (2589569785738035 / 1125899906842624),
                        m_rmse = Finite (3602879701896397 / 36028797018963968),
                        m_mae = Finite (3602879701896397 / 36028797018963968),
                        m_r2_score = Finite (8106479329266893 / 9007199254740992),
                        m_sklearn_rmse = None, m_sklearn_mae = None, m_sklearn_r2 = None,
                        m_equation = ''y = 2.3000x + 1.5000'', m_created_at = 300\<rparr>],
             models_seq = 1\<rparr>"
proof -
  have row: "new_model_row (db alice_state) 300 1 ''m1'' scenario_data =
      \<lparr>m_id = 1, m_user_id = 1, m_model_name = ''m1'', m_theta_0 = Finite (3 / 2),
       m_theta_1 = Finite (2589569785738035 / 1125899906842624),
       m_rmse = Finite (3602879701896397 / 36028797018963968),
       m_mae = Finite (3602879701896397 / 36028797018963968),
       m_r2_score = Finite (8106479329266893 / 9007199254740992),
       m_sklearn_rmse = None, m_sklearn_mae = None, m_sklearn_r2 = None,
       m_equation = ''y = 2.3000x + 1.5000'', m_created_at = 300\<rparr>"
    unfolding new_model_row_def
    by (simp add: alice_state_eq next_rowid_def scenario_data_def dict_get_def
        format_scenario del: format_4f.simps)
  have i: "sqlite_int 1" by (simp add: sqlite_int_def)
  have n: "next_rowid (models_seq (db alice_state)) (map m_id (models (db alice_state))) < 2 ^ 63"
    by (simp add: alice_state_eq next_rowid_def)
  show ?thesis
    unfolding m1_db_def save_model_accepted [OF accepted_scenario i n] row
    by (simp add: alice_state_eq next_rowid_def)
qed

lemma wf_m1_db: "wf_db m1_db"
  by (simp add: m1_db_eq wf_db_def sqlite_int_def)

subsection \<open>The invariant\<close>

text \<open>
  Every operation keeps the constraints of the schema, so that they hold in every
  state the process reaches from the empty database.
\<close>

lemma wf_db_init: "wf_db init_database"
  by (simp add: wf_db_def init_database_def)

lemma wf_db_create_user:
  assumes "wf_db d"
  shows "wf_db (fst (create_user d now username password email))"
proof (cases "insert_user d now username (hash_password password) email")
  case (Inl e)
  then show ?thesis using assms by (cases e) (simp add: create_user_def)
next
  case (Inr d')
  have u: "find (\<lambda>r. u_username r = username) (users d) = None"
    using Inr by (auto simp: insert_user_def split: if_splits)
  have e: "email = None \<or> find (\<lambda>r. u_email r = email) (users d) = None"
    using Inr by (auto simp: insert_user_def split: if_splits)
  have d': "d' = d\<lparr>users := users d @
      [\<lparr>u_id = next_rowid (users_seq d) (map u_id (users d)), u_username = username,
        u_password_hash = hash_password password, u_email = email, u_created_at = now\<rparr>],
      users_seq := next_rowid (users_seq d) (map u_id (users d))\<rparr>"
    using Inr u e by (auto simp: insert_user_def Let_def split: if_splits)
  have un: "username \<notin> set (map u_username (users d))"
    using u by (auto simp: find_None_iff)
  have en: "email \<noteq> None \<Longrightarrow> email \<notin> set (map u_email (users d))"
    using e by (auto simp: find_None_iff)
  have "wf_db d'"
    using assms un en next_rowid_notin [of "users_seq d" "map u_id (users d)"]
      next_rowid_pos [of "users_seq d" "map u_id (users d)"]
    unfolding d' wf_db_def by (cases email) auto
  then show ?thesis using Inr by (simp add: create_user_def)
qed

lemma wf_db_save_model:
  assumes "wf_db d"
  shows "wf_db (fst (save_model d now u n model_data))"
proof (cases "accepted model_data \<and> sqlite_int u \<and>
    next_rowid (models_seq d) (map m_id (models d)) < 2 ^ 63")
  case False
  then show ?thesis using assms by (simp add: save_model_rejected del: power_numeral)
next
  case True
  define kept where "kept = filter (\<lambda>r. \<not> (m_user_id r = u \<and> m_model_name r = n)) (models d)"
  define new where "new = new_model_row d now u n model_data"
  have s: "fst (save_model d now u n model_data) =
      d\<lparr>models := kept @ [new], models_seq := next_rowid (models_seq d) (map m_id (models d))\<rparr>"
    using True by (simp add: save_model_accepted kept_def new_def del: power_numeral)
  have nid: "m_id new = next_rowid (models_seq d) (map m_id (models d))"
    and nu: "m_user_id new = u" and nn: "m_model_name new = n"
    by (simp_all add: new_def new_model_row_def)
  have sub: "set kept \<subseteq> set (models d)" by (auto simp: kept_def)
  have "distinct (map m_id kept)"
    using assms by (simp add: wf_db_def kept_def distinct_map_filter)
  moreover have "m_id new \<notin> set (map m_id kept)"
    using next_rowid_notin [of "models_seq d" "map m_id (models d)"] sub nid by auto
  moreover have "0 \<notin> set (map m_id kept)"
    using assms sub by (auto simp: wf_db_def)
  moreover have "0 < m_id new" by (simp add: nid next_rowid_pos)
  moreover have "distinct (map (\<lambda>r. (m_user_id r, m_model_name r)) kept)"
    using assms by (simp add: wf_db_def kept_def distinct_map_filter)
  moreover have "(u, n) \<notin> set (map (\<lambda>r. (m_user_id r, m_model_name r)) kept)"
    by (auto simp: kept_def)
  moreover have "list_all (\<lambda>r. m_id r < 2 ^ 63 \<and> sqlite_int (m_user_id r)) kept"
    using assms sub by (auto simp: wf_db_def list_all_iff simp del: power_numeral)
  moreover have "m_id new < 2 ^ 63 \<and> sqlite_int (m_user_id new)"
    using True by (simp add: nid nu del: power_numeral)
  ultimately show ?thesis
    using assms unfolding s wf_db_def by (simp add: nu nn del: power_numeral)
qed

lemma wf_db_delete_model:
  assumes "wf_db d"
  shows "wf_db (fst (delete_model d model_id user_id))"
  using assms
  by (auto simp: delete_model_def wf_db_def Let_def distinct_map_filter list_all_iff
      simp del: power_numeral)

lemma wf_db_signup: "wf_db (db st) \<Longrightarrow> wf_db (db (fst (signup st now username password email)))"
  using wf_db_create_user [of "db st" now username password email]
  by (auto simp: signup_def Let_def split: prod.splits option.splits)

lemma db_signin: "db (fst (signin st uuid4 username password)) = db st"
  by (auto simp: signin_def create_session_def Let_def split: option.splits prod.splits)

lemma wf_db_run_op: "wf_db (db st) \<Longrightarrow> wf_db (db (run_op st operation))"
  by (cases operation)
    (simp_all add: wf_db_signup db_signin wf_db_create_user wf_db_save_model
      wf_db_delete_model create_session_def delete_session_def signout_def)

lemma wf_db_run_ops: "wf_db (db st) \<Longrightarrow> wf_db (db (run_ops st ops))"
  unfolding run_ops_def by (induction ops arbitrary: st) (simp_all add: wf_db_run_op)

lemma wf_db_reachable: "wf_db (db (run_ops init_state ops))"
  by (rule wf_db_run_ops) (simp add: init_state_def wf_db_init)

subsection \<open>Models of another user\<close>

lemma wf_owner_unique:
  assumes "wf_db d" and "row \<in> set (models d)" and "r \<in> set (models d)"
    and "m_id r = m_id row"
  shows "r = row"
proof -
  from assms(1) have "distinct (map m_id (models d))" by (simp add: wf_db_def)
  then have "inj_on m_id (set (models d))" by (simp add: distinct_map)
  with assms(2-4) show ?thesis by (auto dest: inj_onD)
qed

lemma wf_id_fits: "wf_db d \<Longrightarrow> row \<in> set (models d) \<Longrightarrow> sqlite_int (int (m_id row))"
proof -
  assume "wf_db d" and "row \<in> set (models d)"
  then have "m_id row < 2 ^ 63" by (auto simp: wf_db_def list_all_iff simp del: power_numeral)
  then have "int (m_id row) < 2 ^ 63" by (metis of_nat_less_iff of_nat_numeral of_nat_power)
  moreover have "- (2 ^ 63) \<le> (0 :: int)" by simp
  then have "- (2 ^ 63) \<le> int (m_id row)" by (rule order_trans) simp
  ultimately show ?thesis by (simp add: sqlite_int_def del: power_numeral)
qed

lemma no_hit:
  assumes "\<And>r. r \<in> set (models d) \<Longrightarrow> \<not> (int (m_id r) = model_id \<and> m_user_id r = user_id)"
    and "sqlite_int model_id"
  shows "get_model_by_id d model_id user_id =
           (if sqlite_int user_id then Inr None else Inl OverflowError)"
    and "delete_model d model_id user_id = (d, False)"
proof -
  have g: "find (\<lambda>r. int (m_id r) = model_id \<and> m_user_id r = user_id) (models d) = None"
    using assms(1) by (simp add: find_None_iff)
  have f: "filter (\<lambda>r. int (m_id r) = model_id \<and> m_user_id r = user_id) (models d) = []"
    using assms(1) by (simp add: filter_empty_conv)
  have k: "filter (\<lambda>r. \<not> (int (m_id r) = model_id \<and> m_user_id r = user_id)) (models d) = models d"
    using assms(1) by (simp add: filter_id_conv)
  show "get_model_by_id d model_id user_id =
           (if sqlite_int user_id then Inr None else Inl OverflowError)"
    unfolding get_model_by_id_def g using assms(2) by simp
  show "delete_model d model_id user_id = (d, False)"
    unfolding delete_model_def Let_def f k by simp
qed




subsection \<open>Saving a model twice\<close>

lemma m1_next: "next_rowid (models_seq m1_db) (map m_id (models m1_db)) = 2"
  by (simp add: m1_db_eq next_rowid_def)

lemma m1_save:
  assumes "accepted model_data"
  shows "save_model m1_db now 1 ''m1'' model_data =
     (m1_db\<lparr>models := [new_model_row m1_db now 1 ''m1'' model_data], models_seq := 2\<rparr>, True)"
proof -
  have i: "sqlite_int 1" by (simp add: sqlite_int_def)
  have n: "next_rowid (models_seq m1_db) (map m_id (models m1_db)) < 2 ^ 63"
    by (simp add: m1_next)
  have k: "filter (\<lambda>r. \<not> (m_user_id r = 1 \<and> m_model_name r = ''m1'')) (models m1_db) = []"
    by (simp add: m1_db_eq)
  show ?thesis
    unfolding save_model_accepted [OF assms i n] k m1_next by simp
qed

lemma m1_listing:
  "get_user_models (m1_db\<lparr>models := [row], models_seq := 2\<rparr>) 1 =
     (if m_user_id row = 1 then Inr [model_dict_of row] else Inr [])"
  by (simp add: get_user_models_def sqlite_int_def)

lemma format_two: "format_4f (Finite 2) = ''2.0000''"
proof -
  have "round_half_even (\<bar>2\<bar> * 10000) = 20000"
    by (rule round_half_even_near) simp_all
  then show ?thesis
    by (simp add: str_nat_digit digits4_def digit_char_def)
qed

text \<open>
  C4, as stated, fails for some metric sets of the second call. Alice has saved "m1"
  with \<open>theta_0 = 1.5\<close>. A second call whose \<open>theta_0\<close> is NaN returns \<open>False\<close> and the
  listing keeps the values of the first call. A second call whose \<open>sklearn_rmse\<close> is
  NaN returns \<open>True\<close> and the listing shows \<open>None\<close> for it. A second call whose
  \<open>theta_0\<close> is \<open>-0.0\<close> returns \<open>True\<close> and the listing shows \<open>0.0\<close>.
\<close>

theorem save_twice_counterexample:
  "save_model m1_db 400 1 ''m1'' (scenario_data(''theta_0'' \<mapsto> PyFloat NaN)) = (m1_db, False) \<and>
   get_user_models m1_db 1 = Inr [\<lparr>md_id = 1, md_model_name = ''m1'', md_theta_0 = Finite (3 / 2),
        md_theta_1 = Finite (2589569785738035 / 1125899906842624),
        md_rmse = Finite (3602879701896397 / 36028797018963968),
        md_mae = Finite (3602879701896397 / 36028797018963968),
        md_r2_score = Finite (8106479329266893 / 9007199254740992),
        md_sklearn_rmse = None, md_sklearn_mae = None, md_sklearn_r2 = None,
        md_equation = ''y = 2.3000x + 1.5000'', md_created_at = 300\<rparr>] \<and>
   snd (save_model m1_db 400 1 ''m1'' (scenario_data(''sklearn_rmse'' \<mapsto> PyFloat NaN))) \<and>
   get_user_models
     (fst (save_model m1_db 400 1 ''m1'' (scenario_data(''sklearn_rmse'' \<mapsto> PyFloat NaN)))) 1 =
     Inr [\<lparr>md_id = 2, md_model_name = ''m1'', md_theta_0 = Finite (3 / 2),
        md_theta_1 = Finite (2589569785738035 / 1125899906842624),
        md_rmse = Finite (3602879701896397 / 36028797018963968),
        md_mae = Finite (3602879701896397 / 36028797018963968),
        md_r2_score = Finite (8106479329266893 / 9007199254740992),
        md_sklearn_rmse = None, md_sklearn_mae = None, md_sklearn_r2 = None,
        md_equation = ''y = 2.3000x + 1.5000'', md_created_at = 400\<rparr>] \<and>
   snd (save_model m1_db 400 1 ''m1'' (scenario_data(''theta_0'' \<mapsto> PyFloat NegZero))) \<and>
   get_user_models
     (fst (save_model m1_db 400 1 ''m1'' (scenario_data(''theta_0'' \<mapsto> PyFloat NegZero)))) 1 =
     Inr [\<lparr>md_id = 2, md_model_name = ''m1'', md_theta_0 = Finite 0,
        md_theta_1 = Finite (2589569785738035 / 1125899906842624),
        md_rmse = Finite (3602879701896397 / 36028797018963968),
        md_mae = Finite (3602879701896397 / 36028797018963968),
        md_r2_score = Finite (8106479329266893 / 9007199254740992),
        md_sklearn_rmse = None, md_sklearn_mae = None, md_sklearn_r2 = None,
        md_equation = ''y = 2.3000x + -0.0000'', md_created_at = 400\<rparr>]"
proof -
  have a: "\<not> accepted (scenario_data(''theta_0'' \<mapsto> PyFloat NaN))"
    by (simp add: accepted_def dict_get_def)
  have b: "accepted (scenario_data(''sklearn_rmse'' \<mapsto> PyFloat NaN))"
    by (simp add: accepted_def scenario_data_def dict_get_def)
  have c: "accepted (scenario_data(''theta_0'' \<mapsto> PyFloat NegZero))"
    by (simp add: accepted_def scenario_data_def dict_get_def)
  have 1: "save_model m1_db 400 1 ''m1'' (scenario_data(''theta_0'' \<mapsto> PyFloat NaN)) =
      (m1_db, False)"
    using a by (simp add: save_model_rejected)
  have 2: "get_user_models m1_db 1 = Inr [\<lparr>md_id = 1, md_model_name = ''m1'', md_theta_0 = Finite (3 / 2),
        md_theta_1 = Finite (2589569785738035 / 1125899906842624),
        md_rmse = Finite (3602879701896397 / 36028797018963968),
        md_mae = Finite (3602879701896397 / 36028797018963968),
        md_r2_score = Finite (8106479329266893 / 9007199254740992),
        md_sklearn_rmse = None, md_sklearn_mae = None, md_sklearn_r2 = None,
        md_equation = ''y = 2.3000x + 1.5000'', md_created_at = 300\<rparr>]"
    by (simp add: m1_db_eq get_user_models_def sqlite_int_def model_dict_of_def)
  have 3: "get_user_models
     (fst (save_model m1_db 400 1 ''m1'' (scenario_data(''sklearn_rmse'' \<mapsto> PyFloat NaN)))) 1 =
     Inr [\<lparr>md_id = 2, md_model_name = ''m1'', md_theta_0 = Finite (3 / 2),
        md_theta_1 = Finite (2589569785738035 / 1125899906842624),
        md_rmse = Finite (3602879701896397 / 36028797018963968),
        md_mae = Finite (3602879701896397 / 36028797018963968),
        md_r2_score = Finite (8106479329266893 / 9007199254740992),
        md_sklearn_rmse = None, md_sklearn_mae = None, md_sklearn_r2 = None,
        md_equation = ''y = 2.3000x + 1.5000'', md_created_at = 400\<rparr>]"
    unfolding m1_save [OF b] fst_conv m1_listing
    by (simp add: new_model_row_def m1_next model_dict_of_def scenario_data_def dict_get_def
        format_scenario del: format_4f.simps)
  have 4: "get_user_models
     (fst (save_model m1_db 400 1 ''m1'' (scenario_data(''theta_0'' \<mapsto> PyFloat NegZero)))) 1 =
     Inr [\<lparr>md_id = 2, md_model_name = ''m1'', md_theta_0 = Finite 0,
        md_theta_1 = Finite (2589569785738035 / 1125899906842624),
        md_rmse = Finite (3602879701896397 / 36028797018963968),
        md_mae = Finite (3602879701896397 / 36028797018963968),
        md_r2_score = Finite (8106479329266893 / 9007199254740992),
        md_sklearn_rmse = None, md_sklearn_mae = None, md_sklearn_r2 = None,
        md_equation = ''y = 2.3000x + -0.0000'', md_created_at = 400\<rparr>]"
    unfolding m1_save [OF c] fst_conv m1_listing
    by (simp add: new_model_row_def m1_next model_dict_of_def scenario_data_def dict_get_def
        format_scenario del: format_4f.simps(1))
  have 5: "snd (save_model m1_db 400 1 ''m1'' (scenario_data(''sklearn_rmse'' \<mapsto> PyFloat NaN)))"
    by (simp add: m1_save [OF b])
  have 6: "snd (save_model m1_db 400 1 ''m1'' (scenario_data(''theta_0'' \<mapsto> PyFloat NegZero)))"
    by (simp add: m1_save [OF c])
  show ?thesis
    by (intro conjI 1 2 3 4 5 6)
qed

text \<open>
  C4, amended. For every user and model name, every first call and every second call
  of \<open>save_model\<close> with the same user and name that returns \<open>True\<close>: afterwards the
  listing of that user has exactly one entry with that name, and its coefficients and
  metrics are the values of the second call as SQLite stores them (\<open>sqlite_bind\<close>: a
  NaN reference metric becomes \<open>None\<close>, a negative zero becomes \<open>0.0\<close>, every other
  value is kept).
\<close>

theorem save_twice_overwrites:
  assumes "save_model (fst (save_model d now1 u n model_data1)) now2 u n model_data2 = (d2, True)"
  shows "\<exists>ms e. get_user_models d2 u = Inr ms \<and>
     filter (\<lambda>e. md_model_name e = n) ms = [e] \<and>
     Some (md_theta_0 e) = sqlite_bind (dict_get model_data2 ''theta_0'' (PyFloat (Finite 0))) \<and>
     Some (md_theta_1 e) = sqlite_bind (dict_get model_data2 ''theta_1'' (PyFloat (Finite 0))) \<and>
     Some (md_rmse e) = sqlite_bind (dict_get model_data2 ''rmse'' (PyFloat (Finite 0))) \<and>
     Some (md_mae e) = sqlite_bind (dict_get model_data2 ''mae'' (PyFloat (Finite 0))) \<and>
     Some (md_r2_score e) = sqlite_bind (dict_get model_data2 ''r2_score'' (PyFloat (Finite 0))) \<and>
     md_sklearn_rmse e = sqlite_bind (dict_get model_data2 ''sklearn_rmse'' PyNone) \<and>
     md_sklearn_mae e = sqlite_bind (dict_get model_data2 ''sklearn_mae'' PyNone) \<and>
     md_sklearn_r2 e = sqlite_bind (dict_get model_data2 ''sklearn_r2'' PyNone)"
proof -
  define d1 where "d1 = fst (save_model d now1 u n model_data1)"
  have s: "save_model d1 now2 u n model_data2 = (d2, True)"
    using assms by (simp add: d1_def)
  from saved_entry [OF s] obtain ms where ms: "get_user_models d2 u = Inr ms"
    "filter (\<lambda>e. md_model_name e = n) ms = [model_dict_of (new_model_row d1 now2 u n model_data2)]"
    by blast
  have "accepted model_data2" by (rule save_model_TrueD(1) [OF s])
  then have b:
    "sqlite_bind (dict_get model_data2 ''theta_0'' (PyFloat (Finite 0))) \<noteq> None"
    "sqlite_bind (dict_get model_data2 ''theta_1'' (PyFloat (Finite 0))) \<noteq> None"
    "sqlite_bind (dict_get model_data2 ''rmse'' (PyFloat (Finite 0))) \<noteq> None"
    "sqlite_bind (dict_get model_data2 ''mae'' (PyFloat (Finite 0))) \<noteq> None"
    "sqlite_bind (dict_get model_data2 ''r2_score'' (PyFloat (Finite 0))) \<noteq> None"
    by (simp_all add: accepted_def)
  show ?thesis
    using ms b by (auto simp: model_dict_of_def new_model_row_def)
qed

text \<open>
  The instance of the example: alice saves "m1" a second time with \<open>theta_0 = 2.0\<close> and
  \<open>sklearn_rmse = 0.25\<close>.
\<close>

theorem save_twice_overwrites_witness:
  "snd (save_model (fst (save_model (db alice_state) 300 1 ''m1'' scenario_data)) 400 1 ''m1''
      (scenario_data(''theta_0'' \<mapsto> PyFloat (Finite 2),
         ''sklearn_rmse'' \<mapsto> PyFloat (Finite (1 / 4))))) \<and>
   get_user_models
     (fst (save_model (fst (save_model (db alice_state) 300 1 ''m1'' scenario_data)) 400 1 ''m1''
      (scenario_data(''theta_0'' \<mapsto> PyFloat (Finite 2),
         ''sklearn_rmse'' \<mapsto> PyFloat (Finite (1 / 4)))))) 1 = Inr [\<lparr>md_id = 2, md_model_name = ''m1'', md_theta_0 = Finite 2,
        md_theta_1 = Finite (2589569785738035 / 1125899906842624),
        md_rmse = Finite (3602879701896397 / 36028797018963968),
        md_mae = Finite (3602879701896397 / 36028797018963968),
        md_r2_score = Finite (8106479329266893 / 9007199254740992),
        md_sklearn_rmse = Some (Finite (1 / 4)), md_sklearn_mae = None, md_sklearn_r2 = None,
        md_equation = ''y = 2.3000x + 2.0000'', md_created_at = 400\<rparr>]"
proof -
  define data2 where "data2 = scenario_data(''theta_0'' \<mapsto> PyFloat (Finite 2),
         ''sklearn_rmse'' \<mapsto> PyFloat (Finite (1 / 4)))"
  have b: "accepted data2"
    by (simp add: data2_def accepted_def scenario_data_def dict_get_def)
  define d2 where "d2 = fst (save_model m1_db 400 1 ''m1'' data2)"
  have s': "save_model m1_db 400 1 ''m1'' data2 = (d2, True)"
    unfolding d2_def m1_save [OF b] by simp
  have s: "save_model (fst (save_model (db alice_state) 300 1 ''m1'' scenario_data)) 400 1 ''m1''
      data2 = (d2, True)"
    using s' by (simp only: m1_db_def)
  have l: "get_user_models d2 1 = Inr [\<lparr>md_id = 2, md_model_name = ''m1'', md_theta_0 = Finite 2,
        md_theta_1 = Finite (2589569785738035 / 1125899906842624),
        md_rmse = Finite (3602879701896397 / 36028797018963968),
        md_mae = Finite (3602879701896397 / 36028797018963968),
        md_r2_score = Finite (8106479329266893 / 9007199254740992),
        md_sklearn_rmse = Some (Finite (1 / 4)), md_sklearn_mae = None, md_sklearn_r2 = None,
        md_equation = ''y = 2.3000x + 2.0000'', md_created_at = 400\<rparr>]"
    unfolding d2_def m1_save [OF b] fst_conv m1_listing
    by (simp add: new_model_row_def m1_next model_dict_of_def scenario_data_def dict_get_def
        data2_def format_scenario format_two del: format_4f.simps)
  show ?thesis
    unfolding data2_def [symmetric]
    using save_twice_overwrites [OF s] l by (simp add: s)
qed

subsection \<open>The identifier after an overwrite\<close>

text \<open>
  C9. When a model that the listing of a user shows is saved again under its name and
  \<open>save_model\<close> returns \<open>True\<close>, the identifier that the listing showed is gone:
  \<open>get_model_by_id\<close> returns \<open>None\<close> for it and \<open>delete_model\<close> returns \<open>False\<close> and
  deletes nothing, and the one entry of that name in the new listing has a larger
  identifier.
\<close>

theorem overwrite_changes_id:
  assumes "wf_db d" and "get_user_models d u = Inr ms" and "old \<in> set ms"
    and "md_model_name old = n"
    and "save_model d now u n model_data = (d', True)"
  shows "get_model_by_id d' (int (md_id old)) u = Inr None \<and>
         delete_model d' (int (md_id old)) u = (d', False) \<and>
         (\<exists>ms' e. get_user_models d' u = Inr ms' \<and>
            filter (\<lambda>e. md_model_name e = n) ms' = [e] \<and> md_id old < md_id e)"
proof -
  note s = save_model_TrueD [OF assms(5)]
  from assms(2,3) obtain r where r: "r \<in> set (models d)" "m_user_id r = u" "old = model_dict_of r"
    by (auto simp: get_user_models_def split: if_splits)
  have rn: "m_model_name r = n" and ri: "m_id r = md_id old"
    using assms(4) r(3) by (simp_all add: model_dict_of_def)
  define new where "new = new_model_row d now u n model_data"
  have m: "models d' = filter (\<lambda>r. \<not> (m_user_id r = u \<and> m_model_name r = n)) (models d) @ [new]"
    by (simp add: s(4) new_def)
  have nid: "m_id new = next_rowid (models_seq d) (map m_id (models d))"
    by (simp add: new_def new_model_row_def)
  have "m_id r \<in> set (map m_id (models d))" using r(1) by simp
  then have lt: "md_id old < m_id new"
    unfolding nid ri by (rule next_rowid_fresh)
  have gone: "\<not> (int (m_id x) = int (md_id old) \<and> m_user_id x = u)" if "x \<in> set (models d')" for x
  proof (cases "x = new")
    case True
    then show ?thesis using lt by simp
  next
    case False
    then have x: "x \<in> set (models d)" "\<not> (m_user_id x = u \<and> m_model_name x = n)"
      using that by (auto simp: m)
    show ?thesis
    proof
      assume "int (m_id x) = int (md_id old) \<and> m_user_id x = u"
      then have "m_id x = m_id r" by (simp add: ri)
      then have "x = r" by (rule wf_owner_unique [OF assms(1) r(1) x(1)])
      with x(2) r(2) rn show False by simp
    qed
  qed
  have fits: "sqlite_int (int (md_id old))"
    using wf_id_fits [OF assms(1) r(1)] by (simp add: ri)
  note h = no_hit [of d' "int (md_id old)" u, OF gone fits]
  from saved_entry [OF assms(5)] obtain ms' where ms': "get_user_models d' u = Inr ms'"
    "filter (\<lambda>e. md_model_name e = n) ms' = [model_dict_of new]"
    unfolding new_def by blast
  have "md_id old < md_id (model_dict_of new)" using lt by (simp add: model_dict_of_def)
  with ms' have "\<exists>ms' e. get_user_models d' u = Inr ms' \<and>
            filter (\<lambda>e. md_model_name e = n) ms' = [e] \<and> md_id old < md_id e" by blast
  then show ?thesis using h s(2) by simp
qed

text \<open>
  The instance of the example: alice's model 1, saved again, is model 2.
\<close>

theorem overwrite_changes_id_witness:
  "get_user_models m1_db 1 = Inr [\<lparr>md_id = 1, md_model_name = ''m1'', md_theta_0 = Finite (3 / 2),
        md_theta_1 = Finite (2589569785738035 / 1125899906842624),
        md_rmse = Finite (3602879701896397 / 36028797018963968),
        md_mae = Finite (3602879701896397 / 36028797018963968),
        md_r2_score = Finite (8106479329266893 / 9007199254740992),
        md_sklearn_rmse = None, md_sklearn_mae = None, md_sklearn_r2 = None,
        md_equation = ''y = 2.3000x + 1.5000'', md_created_at = 300\<rparr>] \<and>
   save_model m1_db 400 1 ''m1'' scenario_data =
     (m1_db\<lparr>models := [new_model_row m1_db 400 1 ''m1'' scenario_data], models_seq := 2\<rparr>, True) \<and>
   get_model_by_id (m1_db\<lparr>models := [new_model_row m1_db 400 1 ''m1'' scenario_data],
      models_seq := 2\<rparr>) 1 1 = Inr None \<and>
   delete_model (m1_db\<lparr>models := [new_model_row m1_db 400 1 ''m1'' scenario_data],
      models_seq := 2\<rparr>) 1 1 =
     (m1_db\<lparr>models := [new_model_row m1_db 400 1 ''m1'' scenario_data], models_seq := 2\<rparr>, False) \<and>
   get_user_models (m1_db\<lparr>models := [new_model_row m1_db 400 1 ''m1'' scenario_data],
      models_seq := 2\<rparr>) 1 = Inr [\<lparr>md_id = 2, md_model_name = ''m1'', md_theta_0 = Finite (3 / 2),
        md_theta_1 = Finite (2589569785738035 / 1125899906842624),
        md_rmse = Finite (3602879701896397 / 36028797018963968),
        md_mae = Finite (3602879701896397 / 36028797018963968),
        md_r2_score = Finite (8106479329266893 / 9007199254740992),
        md_sklearn_rmse = None, md_sklearn_mae = None, md_sklearn_r2 = None,
        md_equation = ''y = 2.3000x + 1.5000'', md_created_at = 400\<rparr>]"
proof -
  have l: "get_user_models m1_db 1 = Inr [\<lparr>md_id = 1, md_model_name = ''m1'', md_theta_0 = Finite (3 / 2),
        md_theta_1 = Finite (2589569785738035 / 1125899906842624),
        md_rmse = Finite (3602879701896397 / 36028797018963968),
        md_mae = Finite (3602879701896397 / 36028797018963968),
        md_r2_score = Finite (8106479329266893 / 9007199254740992),
        md_sklearn_rmse = None, md_sklearn_mae = None, md_sklearn_r2 = None,
        md_equation = ''y = 2.3000x + 1.5000'', md_created_at = 300\<rparr>]"
    by (simp add: m1_db_eq get_user_models_def sqlite_int_def model_dict_of_def)
  have o: "\<lparr>md_id = 1, md_model_name = ''m1'', md_theta_0 = Finite (3 / 2),
        md_theta_1 = Finite (2589569785738035 / 1125899906842624),
        md_rmse = Finite (3602879701896397 / 36028797018963968),
        md_mae = Finite (3602879701896397 / 36028797018963968),
        md_r2_score = Finite (8106479329266893 / 9007199254740992),
        md_sklearn_rmse = None, md_sklearn_mae = None, md_sklearn_r2 = None,
        md_equation = ''y = 2.3000x + 1.5000'', md_created_at = 300\<rparr> \<in> set [\<lparr>md_id = 1, md_model_name = ''m1'', md_theta_0 = Finite (3 / 2),
        md_theta_1 = Finite (2589569785738035 / 1125899906842624),
        md_rmse = Finite (3602879701896397 / 36028797018963968),
        md_mae = Finite (3602879701896397 / 36028797018963968),
        md_r2_score = Finite (8106479329266893 / 9007199254740992),
        md_sklearn_rmse = None, md_sklearn_mae = None, md_sklearn_r2 = None,
        md_equation = ''y = 2.3000x + 1.5000'', md_created_at = 300\<rparr>]"
    by simp
  have n: "md_model_name (\<lparr>md_id = 1, md_model_name = ''m1'', md_theta_0 = Finite (3 / 2),
        md_theta_1 = Finite (2589569785738035 / 1125899906842624),
        md_rmse = Finite (3602879701896397 / 36028797018963968),
        md_mae = Finite (3602879701896397 / 36028797018963968),
        md_r2_score = Finite (8106479329266893 / 9007199254740992),
        md_sklearn_rmse = None, md_sklearn_mae = None, md_sklearn_r2 = None,
        md_equation = ''y = 2.3000x + 1.5000'', md_created_at = 300\<rparr>) = ''m1''"
    by simp
  have l2: "get_user_models (m1_db\<lparr>models := [new_model_row m1_db 400 1 ''m1'' scenario_data],
      models_seq := 2\<rparr>) 1 = Inr [\<lparr>md_id = 2, md_model_name = ''m1'', md_theta_0 = Finite (3 / 2),
        md_theta_1 = Finite (2589569785738035 / 1125899906842624),
        md_rmse = Finite (3602879701896397 / 36028797018963968),
        md_mae = Finite (3602879701896397 / 36028797018963968),
        md_r2_score = Finite (8106479329266893 / 9007199254740992),
        md_sklearn_rmse = None, md_sklearn_mae = None, md_sklearn_r2 = None,
        md_equation = ''y = 2.3000x + 1.5000'', md_created_at = 400\<rparr>]"
    unfolding m1_listing
    by (simp add: new_model_row_def m1_next model_dict_of_def scenario_data_def dict_get_def
        format_scenario del: format_4f.simps)
  show ?thesis
    using overwrite_changes_id [OF wf_m1_db l o n m1_save [OF accepted_scenario]] l l2
      m1_save [OF accepted_scenario, of 400]
    by simp
qed

subsection \<open>The stored equation\<close>

lemma is_digit_str_nat: "list_all is_digit (str_nat k)"
  unfolding list_all_iff is_digit_def using set_str_nat [of k] by blast

lemma is_digit_digits4: "list_all is_digit (digits4 k)"
  by (simp only: digits4_def list.pred_inject is_digit_def digit_char_range simp_thms)

lemma four_decimals_shape:
  assumes "list_all is_digit q" and "q \<noteq> []" and "list_all is_digit f" and "length f = 4"
    and "sign = ''-'' \<or> sign = []"
  shows "four_decimals (sign @ q @ ''.'' @ f)"
proof -
  have nd: "\<not> is_digit CHR ''.''" "\<not> is_digit CHR ''-''" by (simp_all add: is_digit_def)
  obtain c cs where q: "q = c # cs" using assms(2) by (cases q) auto
  have c: "is_digit c" using assms(1) q by simp
  then have cm: "c \<noteq> CHR ''-''" using nd(2) by auto
  have body: "(if take 1 (sign @ q @ ''.'' @ f) = ''-'' then drop 1 (sign @ q @ ''.'' @ f)
      else sign @ q @ ''.'' @ f) = q @ ''.'' @ f"
    using assms(5) cm by (auto simp: q)
  have tw: "takeWhile is_digit (q @ ''.'' @ f) = q"
    using assms(1) nd(1) by (simp add: takeWhile_append2 list_all_iff)
  show ?thesis
    unfolding four_decimals_def body Let_def tw
    using assms(2,3,4) by simp
qed

lemma four_decimals_format:
  assumes "x \<noteq> PosInf" and "x \<noteq> NegInf" and "x \<noteq> NaN"
  shows "four_decimals (format_4f x)"
proof (cases x)
  case (Finite v)
  define k where "k = nat (round_half_even (\<bar>v\<bar> * 10000))"
  have "format_4f x = (if v < 0 then ''-'' else []) @ str_nat (k div 10000) @ ''.'' @
      digits4 (k mod 10000)"
    by (simp add: Finite k_def Let_def)
  moreover have "four_decimals ((if v < 0 then ''-'' else []) @ str_nat (k div 10000) @ ''.'' @
      digits4 (k mod 10000))"
  proof (rule four_decimals_shape)
    show "list_all is_digit (str_nat (k div 10000))" by (rule is_digit_str_nat)
    show "str_nat (k div 10000) \<noteq> []" by (rule str_nat_not_Nil)
    show "list_all is_digit (digits4 (k mod 10000))" by (rule is_digit_digits4)
    show "length (digits4 (k mod 10000)) = 4" by (simp add: digits4_def)
    show "(if v < 0 then ''-'' else []) = ''-'' \<or> (if v < 0 then ''-'' else []) = []" by simp
  qed
  ultimately show ?thesis by simp
next
  case NegZero
  have "four_decimals (''-'' @ ''0'' @ ''.'' @ ''0000'')"
    by (rule four_decimals_shape) (simp_all add: is_digit_def)
  then show ?thesis by (simp add: NegZero)
qed (use assms in simp_all)

text \<open>
  C7, as stated, fails: a coefficient that is infinite is not written with four
  decimal places. With \<open>theta_1 = inf\<close> the call returns \<open>True\<close> and the stored equation
  is "y = infx + 1.5000".
\<close>

theorem stored_equation_counterexample:
  "snd (save_model (db alice_state) 300 1 ''m1'' (scenario_data(''theta_1'' \<mapsto> PyFloat PosInf))) \<and>
   map m_equation
     (models (fst (save_model (db alice_state) 300 1 ''m1''
        (scenario_data(''theta_1'' \<mapsto> PyFloat PosInf))))) = [''y = infx + 1.5000''] \<and>
   \<not> four_decimals ''inf''"
proof -
  have a: "accepted (scenario_data(''theta_1'' \<mapsto> PyFloat PosInf))"
    by (simp add: accepted_def scenario_data_def dict_get_def)
  have i: "sqlite_int 1" by (simp add: sqlite_int_def)
  have n: "next_rowid (models_seq (db alice_state)) (map m_id (models (db alice_state))) < 2 ^ 63"
    by (simp add: alice_state_eq next_rowid_def)
  have e: "m_equation (new_model_row (db alice_state) 300 1 ''m1''
      (scenario_data(''theta_1'' \<mapsto> PyFloat PosInf))) = ''y = infx + 1.5000''"
    by (simp add: new_model_row_def scenario_data_def dict_get_def format_scenario
        del: format_4f.simps(1))
  have f: "\<not> four_decimals ''inf''"
    by (simp add: four_decimals_def is_digit_def)
  have m0: "models (db alice_state) = []" by (simp add: alice_state_eq)
  have 1: "snd (save_model (db alice_state) 300 1 ''m1''
      (scenario_data(''theta_1'' \<mapsto> PyFloat PosInf)))"
    by (simp only: save_model_accepted [OF a i n] snd_conv)
  have "models (fst (save_model (db alice_state) 300 1 ''m1''
      (scenario_data(''theta_1'' \<mapsto> PyFloat PosInf)))) =
      [new_model_row (db alice_state) 300 1 ''m1'' (scenario_data(''theta_1'' \<mapsto> PyFloat PosInf))]"
    unfolding save_model_accepted [OF a i n] fst_conv by (simp add: m0)
  then have 2: "map m_equation (models (fst (save_model (db alice_state) 300 1 ''m1''
      (scenario_data(''theta_1'' \<mapsto> PyFloat PosInf))))) = [''y = infx + 1.5000'']"
    by (simp only: list.map e)
  show ?thesis
    by (intro conjI 1 2 f)
qed

text \<open>
  C7, amended. For every call of \<open>save_model\<close> whose two coefficients are floats that
  are not infinite, if the call stores a row (it returns \<open>True\<close>), then the row stored
  for that user and name has the equation "y = {theta_1}x + {theta_0}", each coefficient
  in the format \<open>.4f\<close>, which is a number written with exactly four decimal places.
\<close>

theorem stored_equation_format:
  assumes "save_model d now u n model_data = (d', True)"
    and "dict_get model_data ''theta_1'' (PyFloat (Finite 0)) = PyFloat x1"
    and "dict_get model_data ''theta_0'' (PyFloat (Finite 0)) = PyFloat x0"
    and "x1 \<noteq> PosInf" and "x1 \<noteq> NegInf" and "x0 \<noteq> PosInf" and "x0 \<noteq> NegInf"
  shows "\<exists>row. filter (\<lambda>r. m_user_id r = u \<and> m_model_name r = n) (models d') = [row] \<and>
           m_equation row = ''y = '' @ format_4f x1 @ ''x + '' @ format_4f x0 \<and>
           four_decimals (format_4f x1) \<and> four_decimals (format_4f x0)"
proof -
  note s = save_model_TrueD [OF assms(1)]
  define new where "new = new_model_row d now u n model_data"
  have k: "filter (\<lambda>r. m_user_id r = u \<and> m_model_name r = n)
          (filter (\<lambda>r. \<not> (m_user_id r = u \<and> m_model_name r = n)) xs) = []" for xs :: "model_row list"
    by (induction xs) simp_all
  have nw: "m_user_id new = u \<and> m_model_name new = n"
    by (simp add: new_def new_model_row_def)
  have m: "models d' = filter (\<lambda>r. \<not> (m_user_id r = u \<and> m_model_name r = n)) (models d) @ [new]"
    by (simp add: s(4) new_def)
  have row: "filter (\<lambda>r. m_user_id r = u \<and> m_model_name r = n) (models d') = [new]"
    unfolding m filter_append k using nw by simp
  have eq: "m_equation new = ''y = '' @ format_4f x1 @ ''x + '' @ format_4f x0"
    by (simp add: new_def new_model_row_def assms(2,3) del: format_4f.simps)
  have "x1 \<noteq> NaN" "x0 \<noteq> NaN"
    using s(1) assms(2,3) by (auto simp: accepted_def)
  then have "four_decimals (format_4f x1)" "four_decimals (format_4f x0)"
    using assms(4-7) by (simp_all add: four_decimals_format del: format_4f.simps)
  with row eq show ?thesis by blast
qed

text \<open>
  The scenario of the specification: saving with \<open>theta_0 = 1.5\<close> and \<open>theta_1 = 2.3\<close>
  stores the equation "y = 2.3000x + 1.5000".
\<close>

theorem stored_equation_format_witness:
  "save_model (db alice_state) 300 1 ''m1'' scenario_data = (m1_db, True) \<and>
   map m_equation (models m1_db) = [''y = 2.3000x + 1.5000''] \<and>
   format_4f (Finite (2589569785738035 / 1125899906842624)) = ''2.3000'' \<and>
   format_4f (Finite (3 / 2)) = ''1.5000'' \<and>
   four_decimals ''2.3000'' \<and> four_decimals ''1.5000''"
proof -
  have i: "sqlite_int 1" by (simp add: sqlite_int_def)
  have n: "next_rowid (models_seq (db alice_state)) (map m_id (models (db alice_state))) < 2 ^ 63"
    by (simp add: alice_state_eq next_rowid_def)
  have s: "save_model (db alice_state) 300 1 ''m1'' scenario_data = (m1_db, True)"
    unfolding m1_db_def save_model_accepted [OF accepted_scenario i n] by simp
  have t1: "dict_get scenario_data ''theta_1'' (PyFloat (Finite 0)) =
      PyFloat (Finite (2589569785738035 / 1125899906842624))"
    by (simp add: scenario_data_def dict_get_def)
  have t0: "dict_get scenario_data ''theta_0'' (PyFloat (Finite 0)) = PyFloat (Finite (3 / 2))"
    by (simp add: scenario_data_def dict_get_def)
  have f: "filter (\<lambda>r. m_user_id r = 1 \<and> m_model_name r = ''m1'') (models m1_db) = models m1_db"
    by (simp add: m1_db_eq)
  have e: "map m_equation (models m1_db) = [''y = 2.3000x + 1.5000'']"
    by (simp add: m1_db_eq)
  have p: "Finite (2589569785738035 / 1125899906842624) \<noteq> PosInf"
    "Finite (2589569785738035 / 1125899906842624) \<noteq> NegInf"
    "Finite (3 / 2) \<noteq> PosInf" "Finite (3 / 2) \<noteq> NegInf"
    by (simp_all only: pyfloat.distinct not_False_eq_True)
  from stored_equation_format [OF s t1 t0 p]
  have "four_decimals (format_4f (Finite (2589569785738035 / 1125899906842624))) \<and>
      four_decimals (format_4f (Finite (3 / 2)))"
    by blast
  then have d: "four_decimals ''2.3000''" "four_decimals ''1.5000''"
    by (simp_all only: format_scenario)
  show ?thesis
    by (intro conjI s e format_scenario d)
qed

subsection \<open>Sessions\<close>

lemma sessions_signup: "active_sessions (fst (signup st now username password email)) = active_sessions st"
  by (auto simp: signup_def Let_def split: prod.splits option.splits)

lemma run_op_keeps_session:
  assumes "is_authenticated st s" and "operation \<noteq> Signout s" and "operation \<noteq> DeleteSession s"
  shows "is_authenticated (run_op st operation) s"
proof (cases operation)
  case (Signin uuid4 username password)
  then show ?thesis
    using assms(1)
    by (auto simp: is_authenticated_def signin_def create_session_def Let_def
        split: option.splits)
next
  case (Signup now username password email)
  then show ?thesis using assms(1) by (simp add: is_authenticated_def sessions_signup)
qed (use assms in \<open>auto simp: is_authenticated_def create_session_def delete_session_def
      signout_def\<close>)

lemma run_ops_keep_session:
  assumes "is_authenticated st s" and "Signout s \<notin> set ops" and "DeleteSession s \<notin> set ops"
  shows "is_authenticated (run_ops st ops) s"
  using assms unfolding run_ops_def
proof (induction ops arbitrary: st)
  case Nil
  then show ?case by simp
next
  case (Cons operation ops)
  have "is_authenticated (run_op st operation) s"
    using Cons.prems by (intro run_op_keeps_session) auto
  then show ?case using Cons by simp
qed

text \<open>
  C8. A session that \<open>create_session\<close> has made active stays active through every
  sequence of operations that contains neither \<open>delete_session\<close> nor \<open>signout\<close> for its
  identifier, whatever the clock readings of the operations are: nothing expires it.
\<close>

theorem session_never_expires:
  assumes "create_session st0 uuid4 user_id username = (st, s)"
    and "Signout s \<notin> set ops" and "DeleteSession s \<notin> set ops"
  shows "is_authenticated (run_ops st ops) s"
proof -
  have "is_authenticated st s"
    using assms(1) by (auto simp: create_session_def is_authenticated_def Let_def)
  then show ?thesis using assms(2,3) by (rule run_ops_keep_session)
qed

text \<open>
  The instance of the example: alice's session, created at time 100, is still active
  after operations of other users and of other sessions, more than seven days
  (604800 seconds) later.
\<close>

theorem session_never_expires_witness:
  "create_session alice_state ''s1'' 1 ''alice'' =
     (alice_state\<lparr>active_sessions := [''s1'' \<mapsto>
        \<lparr>s_user_id = 1, s_username = ''alice'', s_created_at = ''2024-01-01''\<rparr>]\<rparr>, ''s1'') \<and>
   is_authenticated
     (run_ops (alice_state\<lparr>active_sessions := [''s1'' \<mapsto>
        \<lparr>s_user_id = 1, s_username = ''alice'', s_created_at = ''2024-01-01''\<rparr>]\<rparr>)
        [Signup 700000 ''bob'' ''hunter22'' None, Signin ''s2'' ''carol'' ''secret1'',
         CreateSession ''s2'' 2 ''bob'', Signout ''s2'', DeleteSession ''s3'',
         SaveModel 800000 1 ''m1'' scenario_data, DeleteModel 1 1, GetCurrentUser ''s1'',
         Signout ''s2'']) ''s1''"
proof -
  have c: "create_session alice_state ''s1'' 1 ''alice'' =
     (alice_state\<lparr>active_sessions := [''s1'' \<mapsto>
        \<lparr>s_user_id = 1, s_username = ''alice'', s_created_at = ''2024-01-01''\<rparr>]\<rparr>, ''s1'')"
    by (simp add: create_session_def alice_state_eq Let_def)
  show ?thesis
    using session_never_expires [OF c, of
        "[Signup 700000 ''bob'' ''hunter22'' None, Signin ''s2'' ''carol'' ''secret1'',
         CreateSession ''s2'' 2 ''bob'', Signout ''s2'', DeleteSession ''s3'',
         SaveModel 800000 1 ''m1'' scenario_data, DeleteModel 1 1, GetCurrentUser ''s1'',
         Signout ''s2'']"] c
    by simp
qed

subsection \<open>Signing in\<close>




lemma alice_state2_eq:
  "alice_state2 =
     \<lparr>db = \<lparr>users = [\<lparr>u_id = 1, u_username = ''alice'',
                        u_password_hash = hash_password ''hunter22'',
                        u_email = Some ''a@x.com'', u_created_at = 100\<rparr>],
             users_seq = 1, models = [], models_seq = 0\<rparr>,
      active_sessions = Map.empty\<rparr>"
  by (simp add: alice_state2_def signup_def create_user_def insert_user_def init_state_def
      init_database_def next_rowid_def authenticate_user_def verify_password_def
      get_user_by_id_def)


lemma wf_alice_state: "wf_db (db alice_state)"
  by (simp add: alice_state_eq wf_db_def)


end
